theory Spec2Isabelle
  imports Main "HOL-Library.Word"
begin

section \<open>The device-state tracking core of lumina-disk-manager (manager.cpp)\<close>

text \<open>
  The model follows \<^verbatim>\<open>manager.cpp\<close> function by function. Every function takes the
  object it runs on (\<^verbatim>\<open>this\<close>) and the state of the outside world, and returns the
  updated object, the trace of what it did, and the world afterwards.

  The outside world is the UDisks2 service behind the bus. Its type \<open>'w\<close> is a
  parameter: each request of the namespace \<^verbatim>\<open>uDisks2\<close> (declared in \<^verbatim>\<open>udisks2.h\<close>,
  which is not part of the sources at hand) takes the world and returns its answer
  together with the world after the request, so that two requests of the same kind may
  answer differently.
\<close>

subsection \<open>Traces\<close>

text \<open>One constructor for each function of \<^verbatim>\<open>uDisks2\<close> that the code calls, with its argument.\<close>

datatype request =
    GetDevices
  | GetDrivePath string
  | GetDeviceName string
  | IsRemovable string
  | GetMountPoint string
  | GetFileSystem string
  | IsOptical string
  | HasMedia string
  | OpticalDataTracks string
  | OpticalAudioTracks string
  | OpticalMediaIsBlank string
  | HasPartition string
  | MountDevice string
  | UnmountDevice string
  | EjectDevice string

text \<open>The signals of class \<^verbatim>\<open>Device\<close> and of class \<^verbatim>\<open>Manager\<close> (manager.h).\<close>

datatype signal =
    Device_mediaChanged string bool
  | Device_mountpointChanged string string
  | Device_nameChanged string string
  | Device_errorMessage string string
  | Manager_updatedDevices
  | Manager_mediaChanged string bool
  | Manager_mountpointChanged string string
  | Manager_deviceErrorMessage string string
  | Manager_foundNewDevice string

text \<open>The member functions that the code calls from inside another member function.\<close>

datatype slot = Slot_updateDeviceProperties | Slot_eject | Slot_scanDevices

text \<open>
  A trace lists, in program order, the statements with an effect outside the object:
  a request to the service, a call of another member function, an \<^verbatim>\<open>emit\<close>, a
  \<^verbatim>\<open>new Device\<close> (with the identity of the new object and its path) and a
  \<^verbatim>\<open>delete\<close> of a Device.
\<close>

datatype act =
    Adapter request
  | Invoke slot
  | Emit signal
  | New nat string
  | Delete nat

fun requests :: "act list \<Rightarrow> request list" where
  "requests [] = []"
| "requests (Adapter r # tr) = r # requests tr"
| "requests (_ # tr) = requests tr"

fun emitted :: "act list \<Rightarrow> signal list" where
  "emitted [] = []"
| "emitted (Emit s # tr) = s # emitted tr"
| "emitted (_ # tr) = emitted tr"

fun invoked :: "act list \<Rightarrow> slot list" where
  "invoked [] = []"
| "invoked (Invoke f # tr) = f # invoked tr"
| "invoked (_ # tr) = invoked tr"

fun constructed :: "act list \<Rightarrow> (nat \<times> string) list" where
  "constructed [] = []"
| "constructed (New a p # tr) = (a, p) # constructed tr"
| "constructed (_ # tr) = constructed tr"

fun is_error :: "signal \<Rightarrow> bool" where
  "is_error (Device_errorMessage _ _) = True"
| "is_error _ = False"

subsection \<open>The service adapter and the bus\<close>

text \<open>
  \<open>Block p\<close> is the interface \<^verbatim>\<open>QDBusInterface(DBUS_SERVICE, p, "<service>.Block")\<close> that
  the constructor of a Device opens on its own path; \<open>ObjectManager\<close> is the
  interface that \<^verbatim>\<open>Manager::setupDBus\<close> opens on \<^verbatim>\<open>DBUS_PATH\<close>.
\<close>

datatype QDBusInterface = Block string | ObjectManager

text \<open>
  The environment: the functions of \<^verbatim>\<open>uDisks2\<close>, the macro \<^verbatim>\<open>DBUS_PATH\<close> of the same
  header, and \<^verbatim>\<open>QDBusInterface::isValid\<close>, which reads the state of the connection and
  sends nothing.
\<close>

record 'w env =
  uDisks2_getDevices :: "'w \<Rightarrow> string list \<times> 'w"
  uDisks2_getDrivePath :: "string \<Rightarrow> 'w \<Rightarrow> string \<times> 'w"
  uDisks2_getDeviceName :: "string \<Rightarrow> 'w \<Rightarrow> string \<times> 'w"
  uDisks2_isRemovable :: "string \<Rightarrow> 'w \<Rightarrow> bool \<times> 'w"
  uDisks2_getMountPoint :: "string \<Rightarrow> 'w \<Rightarrow> string \<times> 'w"
  uDisks2_getFileSystem :: "string \<Rightarrow> 'w \<Rightarrow> string \<times> 'w"
  uDisks2_isOptical :: "string \<Rightarrow> 'w \<Rightarrow> bool \<times> 'w"
  uDisks2_hasMedia :: "string \<Rightarrow> 'w \<Rightarrow> bool \<times> 'w"
  uDisks2_opticalDataTracks :: "string \<Rightarrow> 'w \<Rightarrow> 32 word \<times> 'w"
  uDisks2_opticalAudioTracks :: "string \<Rightarrow> 'w \<Rightarrow> 32 word \<times> 'w"
  uDisks2_opticalMediaIsBlank :: "string \<Rightarrow> 'w \<Rightarrow> bool \<times> 'w"
  uDisks2_hasPartition :: "string \<Rightarrow> 'w \<Rightarrow> bool \<times> 'w"
  uDisks2_mountDevice :: "string \<Rightarrow> 'w \<Rightarrow> string \<times> 'w"
  uDisks2_unmountDevice :: "string \<Rightarrow> 'w \<Rightarrow> string \<times> 'w"
  uDisks2_ejectDevice :: "string \<Rightarrow> 'w \<Rightarrow> string \<times> 'w"
  DBUS_PATH :: string
  isValid :: "QDBusInterface \<Rightarrow> 'w \<Rightarrow> bool"

subsection \<open>QString helpers\<close>

text \<open>
  \<^verbatim>\<open>QString::split(sep)\<close> for a separator of one character, keeping empty parts (the
  default): the result is never empty.
\<close>

fun split :: "char \<Rightarrow> string \<Rightarrow> string list" where
  "split sep [] = [[]]"
| "split sep (c # cs) =
     (if c = sep then [] # split sep cs
      else (case split sep cs of
              [] \<Rightarrow> [[c]]
            | part # parts \<Rightarrow> (c # part) # parts))"

text \<open>\<^verbatim>\<open>QString::startsWith\<close>, case sensitive (the default).\<close>

definition startsWith :: "string \<Rightarrow> string \<Rightarrow> bool" where
  "startsWith s p = (take (length p) s = p)"

subsection \<open>class Device\<close>

text \<open>
  The public members of \<^verbatim>\<open>Device\<close> (manager.h). The private member \<^verbatim>\<open>dbus\<close> is set once
  by the constructor to the Block interface on \<^verbatim>\<open>path\<close> and never reassigned, so the
  model writes it \<open>Block (path d)\<close>. The two \<^verbatim>\<open>int\<close> members are words of 32 bits
  (read as signed by \<open>sint\<close>); the code only stores them.
\<close>

record Device =
  name :: string
  path :: string
  dev :: string
  drive :: string
  mountpoint :: string
  filesystem :: string
  isOptical :: bool
  isRemovable :: bool
  hasMedia :: bool
  opticalDataTracks :: "32 word"
  opticalAudioTracks :: "32 word"
  isBlankDisc :: bool
  hasPartition :: bool

text \<open>\<^verbatim>\<open>Device::updateDeviceProperties\<close> (manager.cpp, lines 66 to 96).\<close>

definition updateDeviceProperties ::
  "'w env \<Rightarrow> Device \<Rightarrow> 'w \<Rightarrow> Device \<times> act list \<times> 'w" where
  "updateDeviceProperties U d w0 =
     (if \<not> isValid U (Block (path d)) w0 then (d, [], w0)
      else
        let hadMedia = hasMedia d;
            lastMountpoint = mountpoint d;
            lastName = name d;
            (drive', w1) = uDisks2_getDrivePath U (path d) w0;
            (name', w2) = uDisks2_getDeviceName U drive' w1;
            dev' = last (split CHR ''/'' (path d));
            (isRemovable', w3) = uDisks2_isRemovable U drive' w2;
            (mountpoint', w4) = uDisks2_getMountPoint U (path d) w3;
            (filesystem', w5) = uDisks2_getFileSystem U (path d) w4;
            (isOptical', w6) = uDisks2_isOptical U drive' w5;
            (hasMedia', w7) = uDisks2_hasMedia U drive' w6;
            (opticalDataTracks', w8) = uDisks2_opticalDataTracks U drive' w7;
            (opticalAudioTracks', w9) = uDisks2_opticalAudioTracks U drive' w8;
            (isBlankDisc', w10) = uDisks2_opticalMediaIsBlank U drive' w9;
            (hasPartition', w11) = uDisks2_hasPartition U (path d) w10;
            d' = d\<lparr>drive := drive', name := name', dev := dev',
                   isRemovable := isRemovable', mountpoint := mountpoint',
                   filesystem := filesystem', isOptical := isOptical',
                   hasMedia := hasMedia', opticalDataTracks := opticalDataTracks',
                   opticalAudioTracks := opticalAudioTracks',
                   isBlankDisc := isBlankDisc', hasPartition := hasPartition'\<rparr>
        in (d',
            [Adapter (GetDrivePath (path d)), Adapter (GetDeviceName drive'),
             Adapter (IsRemovable drive'), Adapter (GetMountPoint (path d)),
             Adapter (GetFileSystem (path d)), Adapter (IsOptical drive'),
             Adapter (HasMedia drive'), Adapter (OpticalDataTracks drive'),
             Adapter (OpticalAudioTracks drive'), Adapter (OpticalMediaIsBlank drive'),
             Adapter (HasPartition (path d))]
            @ (if hadMedia \<noteq> hasMedia d'
               then [Emit (Device_mediaChanged (path d') (hasMedia d'))] else [])
            @ (if lastMountpoint \<noteq> mountpoint d'
               then [Emit (Device_mountpointChanged (path d') (mountpoint d'))] else [])
            @ (if lastName \<noteq> name d'
               then [Emit (Device_nameChanged (path d') (name d'))] else []),
            w11))"

text \<open>
  The constructor \<^verbatim>\<open>Device::Device\<close> (lines 13 to 29): the initialiser list, the
  interface on \<^verbatim>\<open>block\<close>, and one call of \<^verbatim>\<open>updateDeviceProperties\<close>. The QString
  members start empty.
\<close>

definition Device_init :: "string \<Rightarrow> Device" where
  "Device_init block =
     \<lparr>name = [], path = block, dev = [], drive = [], mountpoint = [], filesystem = [],
      isOptical = False, isRemovable = False, hasMedia = False,
      opticalDataTracks = 0, opticalAudioTracks = 0,
      isBlankDisc = False, hasPartition = False\<rparr>"

definition Device_new :: "'w env \<Rightarrow> string \<Rightarrow> 'w \<Rightarrow> Device \<times> act list \<times> 'w" where
  "Device_new U block w0 =
     (let (d, tr, w1) = updateDeviceProperties U (Device_init block) w0
      in (d, Invoke Slot_updateDeviceProperties # tr, w1))"

text \<open>
  \<^verbatim>\<open>Device::mount\<close> (lines 31 to 40).
\<close>

definition mount :: "'w env \<Rightarrow> Device \<Rightarrow> 'w \<Rightarrow> Device \<times> act list \<times> 'w" where
  "mount U d w0 =
     (if \<not> isValid U (Block (path d)) w0 \<or> mountpoint d \<noteq> [] then (d, [], w0)
      else
        let (reply, w1) = uDisks2_mountDevice U (path d) w0
        in if reply \<noteq> []
           then (d, [Adapter (MountDevice (path d)),
                     Emit (Device_errorMessage (path d) reply)], w1)
           else
             let (d', tr, w2) = updateDeviceProperties U d w1
             in (d', Adapter (MountDevice (path d)) # Invoke Slot_updateDeviceProperties # tr,
                 w2))"

text \<open>
  \<^verbatim>\<open>Device::eject\<close> (lines 55 to 64). The condition of line 60 is
  \<^verbatim>\<open>!reply.isEmpty()\<close>: its second disjunct is commented out in the source. The inner
  test of line 61 is kept as written. \<^verbatim>\<open>QObject::tr\<close> is taken without an installed
  translation, so that \<^verbatim>\<open>tr("Failed to eject %1").arg(name)\<close> is the text followed by
  the name.
\<close>

definition eject :: "'w env \<Rightarrow> Device \<Rightarrow> 'w \<Rightarrow> Device \<times> act list \<times> 'w" where
  "eject U d w0 =
     (if \<not> isValid U (Block (path d)) w0 then (d, [], w0)
      else
        let (reply, w1) = uDisks2_ejectDevice U (drive d) w0;
            (d', tr, w2) = updateDeviceProperties U d w1;
            pre = Adapter (EjectDevice (drive d)) # Invoke Slot_updateDeviceProperties # tr
        in if reply \<noteq> []
           then
             let reply' = (if reply = [] then ''Failed to eject '' @ name d' else reply)
             in (d', pre @ [Emit (Device_errorMessage (path d') reply')], w2)
           else (d', pre, w2))"

text \<open>\<^verbatim>\<open>Device::unmount\<close> (lines 42 to 53).\<close>

definition unmount :: "'w env \<Rightarrow> Device \<Rightarrow> 'w \<Rightarrow> Device \<times> act list \<times> 'w" where
  "unmount U d w0 =
     (if \<not> isValid U (Block (path d)) w0 \<or> mountpoint d = [] then (d, [], w0)
      else
        let (reply, w1) = uDisks2_unmountDevice U (path d) w0;
            (d', tr, w2) = updateDeviceProperties U d w1;
            pre = Adapter (UnmountDevice (path d)) # Invoke Slot_updateDeviceProperties # tr
        in if reply \<noteq> [] \<or> mountpoint d' \<noteq> []
           then
             let reply' = (if reply = [] then ''Failed to umount '' @ name d' else reply)
             in (d', pre @ [Emit (Device_errorMessage (path d') reply')], w2)
           else if isOptical d'
           then
             let (d'', tr', w3) = eject U d' w2
             in (d'', pre @ Invoke Slot_eject # tr', w3)
           else (d', pre, w2))"

text \<open>
  \<^verbatim>\<open>Device::handlePropertiesChanged\<close> (lines 98 to 103) ignores both arguments.
\<close>

definition handlePropertiesChanged ::
  "'w env \<Rightarrow> Device \<Rightarrow> 'w \<Rightarrow> Device \<times> act list \<times> 'w" where
  "handlePropertiesChanged U d w0 =
     (let (d', tr, w1) = updateDeviceProperties U d w0
      in (d', Invoke Slot_updateDeviceProperties # tr, w1))"

subsection \<open>class Manager\<close>

text \<open>
  \<^verbatim>\<open>QMap<QString,Device*> devices\<close> maps a path to a pointer. The model keeps the Device
  objects in a store of their own, \<open>heap\<close>, addressed by the identity that
  \<^verbatim>\<open>new Device\<close> returned: \<open>next_obj\<close> is the identity of the next object, and no
  identity is given twice. The member \<^verbatim>\<open>dbus\<close> is a pointer, null (\<open>None\<close>) until
  \<^verbatim>\<open>setupDBus\<close> has found the system bus connected.
\<close>

record Manager =
  devices :: "string \<rightharpoonup> nat"
  heap :: "nat \<rightharpoonup> Device"
  next_obj :: nat
  dbus :: "QDBusInterface option"

text \<open>
  The loop of \<^verbatim>\<open>Manager::scanDevices\<close> (lines 129 to 138) over the paths that
  \<^verbatim>\<open>getDevices\<close> returned. The three \<^verbatim>\<open>connect\<close> calls come after the constructor has
  returned, so what the new Device emits while it is constructed reaches no slot of the
  Manager.
\<close>

fun scanLoop :: "'w env \<Rightarrow> string list \<Rightarrow> Manager \<Rightarrow> 'w \<Rightarrow> Manager \<times> act list \<times> 'w" where
  "scanLoop U [] m w0 = (m, [], w0)"
| "scanLoop U (foundDevicePath # rest) m w0 =
     (let hasDevice = (devices m foundDevicePath \<noteq> None)
      in if hasDevice then scanLoop U rest m w0
         else
           let (newDevice, tr, w1) = Device_new U foundDevicePath w0;
               a = next_obj m;
               m' = m\<lparr>devices := (devices m)(foundDevicePath \<mapsto> a),
                      heap := (heap m)(a \<mapsto> newDevice),
                      next_obj := Suc a\<rparr>;
               (m'', tr', w2) = scanLoop U rest m' w1
           in (m'', New a foundDevicePath # tr @ tr', w2))"

text \<open>\<^verbatim>\<open>Manager::scanDevices\<close> (lines 126 to 140).\<close>

definition scanDevices :: "'w env \<Rightarrow> Manager \<Rightarrow> 'w \<Rightarrow> Manager \<times> act list \<times> 'w" where
  "scanDevices U m w0 =
     (let (foundDevices, w1) = uDisks2_getDevices U w0;
          (m', tr, w2) = scanLoop U foundDevices m w1
      in (m', Adapter GetDevices # tr @ [Emit Manager_updatedDevices], w2))"

text \<open>
  The two handlers of the bus notifications return \<open>None\<close> where the code would
  dereference the null pointer \<^verbatim>\<open>dbus\<close>.

  \<^verbatim>\<open>Manager::deviceAdded\<close> (lines 142 to 150); \<open>obj\<close> is \<^verbatim>\<open>obj.path()\<close>.
\<close>

definition deviceAdded ::
  "'w env \<Rightarrow> string \<Rightarrow> Manager \<Rightarrow> 'w \<Rightarrow> (Manager \<times> act list \<times> 'w) option" where
  "deviceAdded U obj m w0 =
     (case dbus m of
        None \<Rightarrow> None
      | Some iface \<Rightarrow>
          if \<not> isValid U iface w0 then Some (m, [], w0)
          else if startsWith obj (DBUS_PATH U @ ''/jobs'') then Some (m, [], w0)
          else
            let (m', tr, w1) = scanDevices U m w0
            in Some (m', Invoke Slot_scanDevices # tr @ [Emit (Manager_foundNewDevice obj)],
                     w1))"

text \<open>
  \<^verbatim>\<open>Manager::deviceRemoved\<close> (lines 152 to 164). \<^verbatim>\<open>devices.take(path)\<close> removes the entry
  and returns its pointer, which \<^verbatim>\<open>delete\<close> then destroys.
\<close>

definition deviceRemoved ::
  "'w env \<Rightarrow> string \<Rightarrow> Manager \<Rightarrow> 'w \<Rightarrow> (Manager \<times> act list \<times> 'w) option" where
  "deviceRemoved U obj m w0 =
     (case dbus m of
        None \<Rightarrow> None
      | Some iface \<Rightarrow>
          if \<not> isValid U iface w0 then Some (m, [], w0)
          else
            let deviceExists = devices m obj
            in if startsWith obj (DBUS_PATH U @ ''/jobs'') then Some (m, [], w0)
               else
                 (case deviceExists of
                    Some a \<Rightarrow>
                      let (found, w1) = uDisks2_getDevices U w0
                      in if obj \<in> set found then Some (m, [Adapter GetDevices], w1)
                         else
                           let m' = m\<lparr>devices := (devices m)(obj := None),
                                      heap := (heap m)(a := None)\<rparr>;
                               (m'', tr, w2) = scanDevices U m' w1
                           in Some (m'', Adapter GetDevices # Delete a
                                         # Invoke Slot_scanDevices # tr, w2)
                  | None \<Rightarrow>
                      let (m', tr, w1) = scanDevices U m w0
                      in Some (m', Invoke Slot_scanDevices # tr, w1)))"

text \<open>
  The three slots that pass a signal of a Device on as a signal of the Manager
  (lines 166 to 179).
\<close>

definition handleDeviceMediaChanged :: "string \<Rightarrow> bool \<Rightarrow> act list" where
  "handleDeviceMediaChanged devicePath mediaPresent =
     [Emit (Manager_mediaChanged devicePath mediaPresent)]"

definition handleDeviceMountpointChanged :: "string \<Rightarrow> string \<Rightarrow> act list" where
  "handleDeviceMountpointChanged devicePath deviceMountpoint =
     [Emit (Manager_mountpointChanged devicePath deviceMountpoint)]"

definition handleDeviceErrorMessage :: "string \<Rightarrow> string \<Rightarrow> act list" where
  "handleDeviceErrorMessage devicePath deviceError =
     [Emit (Manager_deviceErrorMessage devicePath deviceError)]"

subsection \<open>Reading a trace\<close>

text \<open>The device path that a signal carries, if it carries one.\<close>

fun signal_path :: "signal \<Rightarrow> string option" where
  "signal_path (Device_mediaChanged p _) = Some p"
| "signal_path (Device_mountpointChanged p _) = Some p"
| "signal_path (Device_nameChanged p _) = Some p"
| "signal_path (Device_errorMessage p _) = Some p"
| "signal_path Manager_updatedDevices = None"
| "signal_path (Manager_mediaChanged p _) = Some p"
| "signal_path (Manager_mountpointChanged p _) = Some p"
| "signal_path (Manager_deviceErrorMessage p _) = Some p"
| "signal_path (Manager_foundNewDevice p) = Some p"

fun is_foundNewDevice :: "signal \<Rightarrow> bool" where
  "is_foundNewDevice (Manager_foundNewDevice _) = True"
| "is_foundNewDevice _ = False"

fun is_ejectDevice :: "request \<Rightarrow> bool" where
  "is_ejectDevice (EjectDevice _) = True"
| "is_ejectDevice _ = False"

subsection \<open>A simulated service for the scenarios\<close>

text \<open>
  A small UDisks2 stand-in on which the theorems below are run. Successive calls of
  \<^verbatim>\<open>getDevices\<close> answer with the successive elements of \<open>enumerations\<close> (and with no
  device once the script is used up). All devices sit on one drive and share one mount
  point; a successful mount sets the mount point; an unmount answered without error clears
  it and an eject answered without error removes the media, unless the service is
  \<open>stuck\<close>: then both answer as configured and change nothing.
\<close>

record sim =
  enumerations :: "string list list"
  reachable :: bool
  mounted_at :: string
  optical :: bool
  media :: bool
  label :: string
  stuck :: bool
  mount_reply :: string
  unmount_reply :: string
  eject_reply :: string

definition sim_env :: "sim env" where
  "sim_env =
     \<lparr>uDisks2_getDevices =
        (\<lambda>w. case enumerations w of
                [] \<Rightarrow> ([], w)
              | found # later \<Rightarrow> (found, w\<lparr>enumerations := later\<rparr>)),
      uDisks2_getDrivePath = (\<lambda>p w. (''/org/freedesktop/UDisks2/drives/d0'', w)),
      uDisks2_getDeviceName = (\<lambda>p w. (label w, w)),
      uDisks2_isRemovable = (\<lambda>p w. (True, w)),
      uDisks2_getMountPoint = (\<lambda>p w. (mounted_at w, w)),
      uDisks2_getFileSystem = (\<lambda>p w. (''iso9660'', w)),
      uDisks2_isOptical = (\<lambda>p w. (optical w, w)),
      uDisks2_hasMedia = (\<lambda>p w. (media w, w)),
      uDisks2_opticalDataTracks = (\<lambda>p w. (1, w)),
      uDisks2_opticalAudioTracks = (\<lambda>p w. (0, w)),
      uDisks2_opticalMediaIsBlank = (\<lambda>p w. (False, w)),
      uDisks2_hasPartition = (\<lambda>p w. (False, w)),
      uDisks2_mountDevice =
        (\<lambda>p w. (mount_reply w,
                 if mount_reply w = [] then w\<lparr>mounted_at := ''/media/disk''\<rparr> else w)),
      uDisks2_unmountDevice =
        (\<lambda>p w. (unmount_reply w,
                 if unmount_reply w = [] \<and> \<not> stuck w then w\<lparr>mounted_at := []\<rparr> else w)),
      uDisks2_ejectDevice =
        (\<lambda>p w. (eject_reply w,
                 if eject_reply w = [] \<and> \<not> stuck w then w\<lparr>media := False\<rparr> else w)),
      DBUS_PATH = ''/org/freedesktop/UDisks2'',
      isValid = (\<lambda>iface w. reachable w)\<rparr>"

text \<open>A service with a mounted disc in the drive, answering every request without error.\<close>

definition sim0 :: sim where
  "sim0 =
     \<lparr>enumerations = [], reachable = True, mounted_at = ''/media/disk'', optical = False,
      media = True, label = ''disk'', stuck = False,
      mount_reply = [], unmount_reply = [], eject_reply = []\<rparr>"

definition sr0 :: string where
  "sr0 = ''/org/freedesktop/UDisks2/block_devices/sr0''"

definition sdb1 :: string where
  "sdb1 = ''/org/freedesktop/UDisks2/block_devices/sdb1''"

text \<open>The Device on \<open>sr0\<close> as its constructor leaves it on \<open>sim0\<close>.\<close>

definition dev_sr0 :: Device where
  "dev_sr0 =
     \<lparr>name = ''disk'', path = sr0, dev = ''sr0'',
      drive = ''/org/freedesktop/UDisks2/drives/d0'', mountpoint = ''/media/disk'',
      filesystem = ''iso9660'', isOptical = False, isRemovable = True, hasMedia = True,
      opticalDataTracks = 1, opticalAudioTracks = 0,
      isBlankDisc = False, hasPartition = False\<rparr>"

text \<open>A Manager that tracks \<open>sr0\<close> as object 0, after \<^verbatim>\<open>setupDBus\<close>.\<close>

definition mgr_sr0 :: Manager where
  "mgr_sr0 =
     \<lparr>devices = [sr0 \<mapsto> 0], heap = [0 \<mapsto> dev_sr0], next_obj = 1,
      dbus = Some ObjectManager\<rparr>"

text \<open>A Manager that tracks nothing yet, after \<^verbatim>\<open>setupDBus\<close>.\<close>

definition mgr_empty :: Manager where
  "mgr_empty = \<lparr>devices = Map.empty, heap = Map.empty, next_obj = 0, dbus = Some ObjectManager\<rparr>"

text \<open>The same service after the disc was renamed and unmounted behind the Device's back.\<close>

definition sim_renamed :: sim where
  "sim_renamed = sim0\<lparr>label := ''music'', mounted_at := []\<rparr>"

text \<open>The service gone: no interface is valid.\<close>

definition sim_down :: sim where
  "sim_down = sim0\<lparr>reachable := False\<rparr>"

text \<open>The disc is there and not mounted.\<close>

definition sim_unmounted :: sim where
  "sim_unmounted = sim0\<lparr>mounted_at := []\<rparr>"

text \<open>Not mounted, and the service refuses to mount.\<close>

definition sim_mount_fails :: sim where
  "sim_mount_fails = sim_unmounted\<lparr>mount_reply := ''not authorized''\<rparr>"

text \<open>The Device on \<open>sr0\<close> as last refreshed while the disc was not mounted.\<close>

definition dev_unmounted :: Device where
  "dev_unmounted = dev_sr0\<lparr>mountpoint := []\<rparr>"

text \<open>The service refuses to eject.\<close>

definition sim_locked :: sim where
  "sim_locked = sim0\<lparr>eject_reply := ''drive locked''\<rparr>"

text \<open>The service answers unmount and eject without error and does neither.\<close>

definition sim_stuck :: sim where
  "sim_stuck = sim0\<lparr>stuck := True\<rparr>"

text \<open>The service refuses to unmount.\<close>

definition sim_busy :: sim where
  "sim_busy = sim0\<lparr>unmount_reply := ''target is busy''\<rparr>"

text \<open>The Device on \<open>sr0\<close> as last refreshed on an optical drive.\<close>

definition dev_cd :: Device where
  "dev_cd = dev_sr0\<lparr>isOptical := True\<rparr>"

text \<open>The service with an optical drive.\<close>

definition sim_cd :: sim where
  "sim_cd = sim0\<lparr>optical := True\<rparr>"

text \<open>An optical drive that unmounts and then refuses to eject.\<close>

definition sim_cd_locked :: sim where
  "sim_cd_locked = sim0\<lparr>optical := True, eject_reply := ''drive locked''\<rparr>"

text \<open>Two enumerations in a row that list \<open>sr0\<close> and \<open>sdb1\<close>.\<close>

definition sim_two :: sim where
  "sim_two = sim0\<lparr>enumerations := [[sr0, sdb1], [sr0, sdb1]]\<rparr>"

text \<open>The service gone while it would list two devices.\<close>

definition sim_two_down :: sim where
  "sim_two_down = sim_two\<lparr>reachable := False\<rparr>"

text \<open>Two enumerations in a row that list \<open>sr0\<close> only.\<close>

definition sim_listed :: sim where
  "sim_listed = sim0\<lparr>enumerations := [[sr0], [sr0]]\<rparr>"

text \<open>The path of a job object of the service.\<close>

definition job7 :: string where
  "job7 = ''/org/freedesktop/UDisks2/jobs/7''"

section \<open>Properties\<close>

subsection \<open>Traces and the refresh\<close>

lemmas sim_defs = sim_env_def sim0_def sim_cd_def sim_cd_locked_def sim_busy_def sim_stuck_def
  dev_sr0_def dev_cd_def sr0_def

lemma requests_append: "requests (xs @ ys) = requests xs @ requests ys"
  by (induction xs rule: requests.induct) simp_all

lemma emitted_append: "emitted (xs @ ys) = emitted xs @ emitted ys"
  by (induction xs rule: emitted.induct) simp_all

lemma invoked_append: "invoked (xs @ ys) = invoked xs @ invoked ys"
  by (induction xs rule: invoked.induct) simp_all

lemma constructed_append: "constructed (xs @ ys) = constructed xs @ constructed ys"
  by (induction xs rule: constructed.induct) simp_all

lemma split_not_Nil: "split sep s \<noteq> []"
  by (induction s) (auto split: list.splits)

lemma update_path: "path (fst (updateDeviceProperties U d w)) = path d"
  by (simp add: updateDeviceProperties_def Let_def split: prod.splits)

lemma update_invoked: "invoked (fst (snd (updateDeviceProperties U d w))) = []"
  by (simp add: updateDeviceProperties_def Let_def split: prod.splits)

lemma update_constructed: "constructed (fst (snd (updateDeviceProperties U d w))) = []"
  by (simp add: updateDeviceProperties_def Let_def split: prod.splits)

lemma update_no_error:
  "filter is_error (emitted (fst (snd (updateDeviceProperties U d w)))) = []"
  by (simp add: updateDeviceProperties_def Let_def split: prod.splits)

lemma update_no_eject:
  "filter is_ejectDevice (requests (fst (snd (updateDeviceProperties U d w)))) = []"
  by (simp add: updateDeviceProperties_def Let_def split: prod.splits)

lemma update_no_found:
  "filter is_foundNewDevice (emitted (fst (snd (updateDeviceProperties U d w)))) = []"
  by (simp add: updateDeviceProperties_def Let_def split: prod.splits)

lemma update_signal_path:
  "s \<in> set (emitted (fst (snd (updateDeviceProperties U d w)))) \<Longrightarrow>
   signal_path s = Some (path d)"
  by (auto simp add: updateDeviceProperties_def Let_def split: prod.splits if_splits)

subsection \<open>Device: refresh\<close>

text \<open>
  Claim C6. With a valid bus interface, \<^verbatim>\<open>updateDeviceProperties\<close> sends the eleven
  queries (drive path, name, removable, mount point, filesystem, optical, media, data
  tracks, audio tracks, blank disc, partition), stores the answers, and emits exactly:
  \<^verbatim>\<open>mediaChanged\<close> if the media flag answered differs from the stored one,
  \<^verbatim>\<open>mountpointChanged\<close> if the mount point does, \<^verbatim>\<open>nameChanged\<close> if the name does, in
  that order, each with the path of the device and the value just answered. Nothing
  else is emitted, whatever the other answers are.
\<close>

theorem updateDeviceProperties_change_events:
  assumes "isValid U (Block (path d)) w"
    and "uDisks2_getDrivePath U (path d) w = (dr, w1)"
    and "uDisks2_getDeviceName U dr w1 = (nm, w2)"
    and "uDisks2_isRemovable U dr w2 = (rm, w3)"
    and "uDisks2_getMountPoint U (path d) w3 = (mp, w4)"
    and "uDisks2_getFileSystem U (path d) w4 = (fs, w5)"
    and "uDisks2_isOptical U dr w5 = (opt, w6)"
    and "uDisks2_hasMedia U dr w6 = (hm, w7)"
    and "updateDeviceProperties U d w = (d', tr, w')"
  shows "requests tr =
           [GetDrivePath (path d), GetDeviceName dr, IsRemovable dr, GetMountPoint (path d),
            GetFileSystem (path d), IsOptical dr, HasMedia dr, OpticalDataTracks dr,
            OpticalAudioTracks dr, OpticalMediaIsBlank dr, HasPartition (path d)]
       \<and> path d' = path d \<and> drive d' = dr \<and> name d' = nm \<and> isRemovable d' = rm
       \<and> mountpoint d' = mp \<and> filesystem d' = fs \<and> isOptical d' = opt \<and> hasMedia d' = hm
       \<and> emitted tr =
           (if hm \<noteq> hasMedia d then [Device_mediaChanged (path d) hm] else [])
           @ (if mp \<noteq> mountpoint d then [Device_mountpointChanged (path d) mp] else [])
           @ (if nm \<noteq> name d then [Device_nameChanged (path d) nm] else [])"
  using assms
  by (auto simp add: updateDeviceProperties_def Let_def requests_append emitted_append
      split: prod.splits)

text \<open>
  On the service whose disc was renamed and unmounted, the refresh of the Device on
  \<open>sr0\<close> reports the mount point and the name, and not the media, which did not change.
\<close>

theorem updateDeviceProperties_change_events_witness:
  "isValid sim_env (Block (path dev_sr0)) sim_renamed
   \<and> updateDeviceProperties sim_env dev_sr0 sim_renamed
       = (dev_sr0\<lparr>name := ''music'', mountpoint := []\<rparr>,
          map Adapter
            [GetDrivePath sr0, GetDeviceName ''/org/freedesktop/UDisks2/drives/d0'',
             IsRemovable ''/org/freedesktop/UDisks2/drives/d0'', GetMountPoint sr0,
             GetFileSystem sr0, IsOptical ''/org/freedesktop/UDisks2/drives/d0'',
             HasMedia ''/org/freedesktop/UDisks2/drives/d0'',
             OpticalDataTracks ''/org/freedesktop/UDisks2/drives/d0'',
             OpticalAudioTracks ''/org/freedesktop/UDisks2/drives/d0'',
             OpticalMediaIsBlank ''/org/freedesktop/UDisks2/drives/d0'', HasPartition sr0]
          @ [Emit (Device_mountpointChanged sr0 []), Emit (Device_nameChanged sr0 ''music'')],
          sim_renamed)
   \<and> emitted (fst (snd (updateDeviceProperties sim_env dev_sr0 sim_renamed)))
       = [Device_mountpointChanged sr0 [], Device_nameChanged sr0 ''music'']"
proof -
  let ?dr = "''/org/freedesktop/UDisks2/drives/d0''"
  let ?w = sim_renamed
  have v: "isValid sim_env (Block (path dev_sr0)) ?w"
    by (simp add: sim_env_def sim_renamed_def sim0_def)
  have q1: "uDisks2_getDrivePath sim_env (path dev_sr0) ?w = (?dr, ?w)"
    by (simp add: sim_env_def)
  have q2: "uDisks2_getDeviceName sim_env ?dr ?w = (''music'', ?w)"
    by (simp add: sim_env_def sim_renamed_def sim0_def)
  have q3: "uDisks2_isRemovable sim_env ?dr ?w = (True, ?w)"
    by (simp add: sim_env_def)
  have q4: "uDisks2_getMountPoint sim_env (path dev_sr0) ?w = ([], ?w)"
    by (simp add: sim_env_def sim_renamed_def sim0_def)
  have q5: "uDisks2_getFileSystem sim_env (path dev_sr0) ?w = (''iso9660'', ?w)"
    by (simp add: sim_env_def)
  have q6: "uDisks2_isOptical sim_env ?dr ?w = (False, ?w)"
    by (simp add: sim_env_def sim_renamed_def sim0_def)
  have q7: "uDisks2_hasMedia sim_env ?dr ?w = (True, ?w)"
    by (simp add: sim_env_def sim_renamed_def sim0_def)
  have run: "updateDeviceProperties sim_env dev_sr0 ?w
       = (dev_sr0\<lparr>name := ''music'', mountpoint := []\<rparr>,
          map Adapter
            [GetDrivePath sr0, GetDeviceName ?dr, IsRemovable ?dr, GetMountPoint sr0,
             GetFileSystem sr0, IsOptical ?dr, HasMedia ?dr, OpticalDataTracks ?dr,
             OpticalAudioTracks ?dr, OpticalMediaIsBlank ?dr, HasPartition sr0]
          @ [Emit (Device_mountpointChanged sr0 []), Emit (Device_nameChanged sr0 ''music'')],
          ?w)"
    by (simp add: updateDeviceProperties_def sim_env_def sim_renamed_def sim0_def
        dev_sr0_def sr0_def)
  have old: "hasMedia dev_sr0 = True" "mountpoint dev_sr0 = ''/media/disk''"
    "name dev_sr0 = ''disk''" "path dev_sr0 = sr0"
    by (simp_all add: dev_sr0_def)
  from updateDeviceProperties_change_events [OF v q1 q2 q3 q4 q5 q6 q7 run]
  have "emitted (fst (snd (updateDeviceProperties sim_env dev_sr0 ?w)))
       = [Device_mountpointChanged sr0 [], Device_nameChanged sr0 ''music'']"
    by (simp add: run old)
  with v run show ?thesis by simp
qed

subsection \<open>Device: mount\<close>

text \<open>
  Claim C7. \<^verbatim>\<open>mount\<close> does nothing when the bus interface is invalid or the stored mount
  point is not empty: no request, no signal, the Device and the service as before.
  Otherwise it sends the mount request; an answer that is not empty is emitted as
  \<^verbatim>\<open>errorMessage\<close> with the path, and nothing is refreshed; on an empty answer
  \<^verbatim>\<open>updateDeviceProperties\<close> is called, and no error is emitted.
\<close>

theorem mount_contract:
  "(\<not> isValid U (Block (path d)) w \<or> mountpoint d \<noteq> [] \<longrightarrow> mount U d w = (d, [], w))
   \<and> (isValid U (Block (path d)) w \<and> mountpoint d = [] \<longrightarrow>
        (case uDisks2_mountDevice U (path d) w of
           (reply, w1) \<Rightarrow>
             if reply \<noteq> []
             then mount U d w
                  = (d, [Adapter (MountDevice (path d)),
                         Emit (Device_errorMessage (path d) reply)], w1)
             else (case updateDeviceProperties U d w1 of
                     (d', tr, w2) \<Rightarrow>
                       mount U d w
                       = (d', Adapter (MountDevice (path d))
                              # Invoke Slot_updateDeviceProperties # tr, w2)
                       \<and> filter is_error (emitted tr) = [])))"
  using update_no_error [of U d "snd (uDisks2_mountDevice U (path d) w)"]
  by (auto simp add: mount_def Let_def split: prod.splits)

text \<open>
  The four cases on the simulated service: service gone, already mounted, mount refused,
  mount done (the refresh then reports the new mount point).
\<close>

theorem mount_contract_witness:
  "mount sim_env dev_unmounted sim_down = (dev_unmounted, [], sim_down)
   \<and> mount sim_env dev_sr0 sim0 = (dev_sr0, [], sim0)
   \<and> mount sim_env dev_unmounted sim_mount_fails
       = (dev_unmounted, [Adapter (MountDevice sr0),
                          Emit (Device_errorMessage sr0 ''not authorized'')], sim_mount_fails)
   \<and> fst (mount sim_env dev_unmounted sim_unmounted) = dev_sr0
   \<and> emitted (fst (snd (mount sim_env dev_unmounted sim_unmounted)))
       = [Device_mountpointChanged sr0 ''/media/disk'']
   \<and> invoked (fst (snd (mount sim_env dev_unmounted sim_unmounted)))
       = [Slot_updateDeviceProperties]"
proof -
  have a: "\<not> isValid sim_env (Block (path dev_unmounted)) sim_down"
    by (simp add: sim_env_def sim_down_def sim0_def)
  have b: "mountpoint dev_sr0 \<noteq> []"
    by (simp add: dev_sr0_def)
  have c: "isValid sim_env (Block (path dev_unmounted)) sim_mount_fails \<and> mountpoint dev_unmounted = []"
    by (simp add: sim_env_def sim_mount_fails_def sim_unmounted_def sim0_def dev_unmounted_def)
  have c': "uDisks2_mountDevice sim_env sr0 sim_mount_fails = (''not authorized'', sim_mount_fails)"
    by (simp add: sim_env_def sim_mount_fails_def sim_unmounted_def sim0_def)
  have p: "path dev_unmounted = sr0"
    by (simp add: dev_unmounted_def dev_sr0_def)
  have e: "isValid sim_env (Block (path dev_unmounted)) sim_unmounted \<and> mountpoint dev_unmounted = []"
    by (simp add: sim_env_def sim_unmounted_def sim0_def dev_unmounted_def)
  have e': "uDisks2_mountDevice sim_env sr0 sim_unmounted = ([], sim0)"
    by (simp add: sim_env_def sim_unmounted_def sim0_def)
  have e'': "updateDeviceProperties sim_env dev_unmounted sim0
       = (dev_sr0,
          map Adapter
            [GetDrivePath sr0, GetDeviceName ''/org/freedesktop/UDisks2/drives/d0'',
             IsRemovable ''/org/freedesktop/UDisks2/drives/d0'', GetMountPoint sr0,
             GetFileSystem sr0, IsOptical ''/org/freedesktop/UDisks2/drives/d0'',
             HasMedia ''/org/freedesktop/UDisks2/drives/d0'',
             OpticalDataTracks ''/org/freedesktop/UDisks2/drives/d0'',
             OpticalAudioTracks ''/org/freedesktop/UDisks2/drives/d0'',
             OpticalMediaIsBlank ''/org/freedesktop/UDisks2/drives/d0'', HasPartition sr0]
          @ [Emit (Device_mountpointChanged sr0 ''/media/disk'')],
          sim0)"
    by (simp add: updateDeviceProperties_def sim_env_def sim0_def dev_unmounted_def
        dev_sr0_def sr0_def)
  from mount_contract [of sim_env dev_unmounted sim_down] a
  have 1: "mount sim_env dev_unmounted sim_down = (dev_unmounted, [], sim_down)"
    by simp
  from mount_contract [of sim_env dev_sr0 sim0] b
  have 2: "mount sim_env dev_sr0 sim0 = (dev_sr0, [], sim0)"
    by simp
  from mount_contract [of sim_env dev_unmounted sim_mount_fails] c
  have 3: "mount sim_env dev_unmounted sim_mount_fails
       = (dev_unmounted, [Adapter (MountDevice sr0),
                          Emit (Device_errorMessage sr0 ''not authorized'')], sim_mount_fails)"
    by (simp add: c' p)
  from mount_contract [of sim_env dev_unmounted sim_unmounted] e
  have 4: "mount sim_env dev_unmounted sim_unmounted
       = (dev_sr0, Adapter (MountDevice sr0) # Invoke Slot_updateDeviceProperties
            # map Adapter
            [GetDrivePath sr0, GetDeviceName ''/org/freedesktop/UDisks2/drives/d0'',
             IsRemovable ''/org/freedesktop/UDisks2/drives/d0'', GetMountPoint sr0,
             GetFileSystem sr0, IsOptical ''/org/freedesktop/UDisks2/drives/d0'',
             HasMedia ''/org/freedesktop/UDisks2/drives/d0'',
             OpticalDataTracks ''/org/freedesktop/UDisks2/drives/d0'',
             OpticalAudioTracks ''/org/freedesktop/UDisks2/drives/d0'',
             OpticalMediaIsBlank ''/org/freedesktop/UDisks2/drives/d0'', HasPartition sr0]
          @ [Emit (Device_mountpointChanged sr0 ''/media/disk'')],
          sim0)"
    by (simp add: e' e'' p)
  show ?thesis
    by (simp add: 1 2 3 4)
qed

subsection \<open>Device: eject\<close>

lemma eject_invoked: "invoked (fst (snd (eject U d w))) = (if isValid U (Block (path d)) w then [Slot_updateDeviceProperties] else [])"
  using update_invoked [of U d "snd (uDisks2_ejectDevice U (drive d) w)"]
  by (auto simp add: eject_def Let_def invoked_append split: prod.splits)

text \<open>
  Claim C9. With a valid bus interface \<^verbatim>\<open>eject\<close> sends the eject request for the drive
  and calls \<^verbatim>\<open>updateDeviceProperties\<close>; it emits an \<^verbatim>\<open>errorMessage\<close> exactly when the
  answer of the service is not empty, and the message is that answer. The text
  "Failed to eject" followed by the name is never produced by the code: an empty answer
  gives no error signal, whatever the refresh finds.
\<close>

theorem eject_error_policy:
  assumes "isValid U (Block (path d)) w"
    and "uDisks2_ejectDevice U (drive d) w = (reply, w1)"
    and "eject U d w = (d', tr, w')"
  shows "take 2 tr = [Adapter (EjectDevice (drive d)), Invoke Slot_updateDeviceProperties]
       \<and> (d', w') = (fst (updateDeviceProperties U d w1),
                      snd (snd (updateDeviceProperties U d w1)))
       \<and> filter is_error (emitted tr)
           = (if reply \<noteq> [] then [Device_errorMessage (path d) reply] else [])"
  using assms update_no_error [of U d w1] update_path [of U d w1]
  by (auto simp add: eject_def Let_def emitted_append split: prod.splits)

text \<open>
  A refused eject is reported with the words of the service; on the stuck service the
  answer is empty, the media is still there after the refresh, and no error is emitted.
\<close>

theorem eject_error_policy_witness:
  "isValid sim_env (Block (path dev_sr0)) sim_locked
   \<and> filter is_error (emitted (fst (snd (eject sim_env dev_sr0 sim_locked))))
       = [Device_errorMessage sr0 ''drive locked'']
   \<and> isValid sim_env (Block (path dev_sr0)) sim_stuck
   \<and> fst (uDisks2_ejectDevice sim_env (drive dev_sr0) sim_stuck) = []
   \<and> hasMedia (fst (eject sim_env dev_sr0 sim_stuck))
   \<and> filter is_error (emitted (fst (snd (eject sim_env dev_sr0 sim_stuck)))) = []"
proof -
  have v1: "isValid sim_env (Block (path dev_sr0)) sim_locked"
    by (simp add: sim_env_def sim_locked_def sim0_def)
  have r1: "uDisks2_ejectDevice sim_env (drive dev_sr0) sim_locked = (''drive locked'', sim_locked)"
    by (simp add: sim_env_def sim_locked_def sim0_def)
  have v2: "isValid sim_env (Block (path dev_sr0)) sim_stuck"
    by (simp add: sim_env_def sim_stuck_def sim0_def)
  have r2: "uDisks2_ejectDevice sim_env (drive dev_sr0) sim_stuck = ([], sim_stuck)"
    by (simp add: sim_env_def sim_stuck_def sim0_def)
  have p: "path dev_sr0 = sr0"
    by (simp add: dev_sr0_def)
  have u: "fst (updateDeviceProperties sim_env dev_sr0 sim_stuck) = dev_sr0"
    by (simp add: updateDeviceProperties_def sim_env_def sim_stuck_def sim0_def
        dev_sr0_def sr0_def)
  have m: "hasMedia dev_sr0"
    by (simp add: dev_sr0_def)
  obtain d1 tr1 w1 where e1: "eject sim_env dev_sr0 sim_locked = (d1, tr1, w1)"
    by (cases "eject sim_env dev_sr0 sim_locked")
  obtain d2 tr2 w2 where e2: "eject sim_env dev_sr0 sim_stuck = (d2, tr2, w2)"
    by (cases "eject sim_env dev_sr0 sim_stuck")
  from eject_error_policy [OF v1 r1 e1]
  have 1: "filter is_error (emitted (fst (snd (eject sim_env dev_sr0 sim_locked))))
       = [Device_errorMessage sr0 ''drive locked'']"
    by (simp add: p e1)
  from eject_error_policy [OF v2 r2 e2]
  have 2: "hasMedia (fst (eject sim_env dev_sr0 sim_stuck))
     \<and> filter is_error (emitted (fst (snd (eject sim_env dev_sr0 sim_stuck)))) = []"
    by (simp add: u m e2)
  from v1 1 v2 r2 2 show ?thesis by simp
qed

subsection \<open>Device: unmount\<close>

lemma unmount_unfold:
  assumes "isValid U (Block (path d)) w" and "mountpoint d \<noteq> []"
    and "uDisks2_unmountDevice U (path d) w = (reply, w1)"
    and "updateDeviceProperties U d w1 = (d1, tr1, w2)"
  shows "unmount U d w =
     (if reply \<noteq> [] \<or> mountpoint d1 \<noteq> []
      then (d1, Adapter (UnmountDevice (path d)) # Invoke Slot_updateDeviceProperties # tr1
                @ [Emit (Device_errorMessage (path d)
                     (if reply = [] then ''Failed to umount '' @ name d1 else reply))], w2)
      else if isOptical d1
      then (fst (eject U d1 w2),
            Adapter (UnmountDevice (path d)) # Invoke Slot_updateDeviceProperties # tr1
              @ Invoke Slot_eject # fst (snd (eject U d1 w2)),
            snd (snd (eject U d1 w2)))
      else (d1, Adapter (UnmountDevice (path d)) # Invoke Slot_updateDeviceProperties # tr1, w2))"
  using assms update_path [of U d w1]
  by (simp add: unmount_def Let_def split: prod.splits)

text \<open>
  Claim C4. When \<^verbatim>\<open>unmount\<close> has sent its request, the answer was empty and the mount
  point is empty after the refresh, then \<^verbatim>\<open>eject\<close> is called, once and on the
  refreshed Device, if the refreshed optical flag is set; if it is not set, \<^verbatim>\<open>eject\<close> is
  not called and no eject request reaches the service.
\<close>

theorem unmount_then_eject_iff_optical:
  assumes "isValid U (Block (path d)) w" and "mountpoint d \<noteq> []"
    and "uDisks2_unmountDevice U (path d) w = ([], w1)"
    and "updateDeviceProperties U d w1 = (d1, tr1, w2)"
    and "mountpoint d1 = []"
    and "unmount U d w = (d2, tr, w3)"
  shows "filter (\<lambda>f. f = Slot_eject) (invoked tr) = (if isOptical d1 then [Slot_eject] else [])
       \<and> (isOptical d1 \<longrightarrow>
            (d2, w3) = (fst (eject U d1 w2), snd (snd (eject U d1 w2)))
            \<and> tr = Adapter (UnmountDevice (path d)) # Invoke Slot_updateDeviceProperties # tr1
                     @ Invoke Slot_eject # fst (snd (eject U d1 w2)))
       \<and> (\<not> isOptical d1 \<longrightarrow>
            (d2, w3) = (d1, w2)
            \<and> tr = Adapter (UnmountDevice (path d)) # Invoke Slot_updateDeviceProperties # tr1
            \<and> filter is_ejectDevice (requests tr) = [])"
proof -
  have i: "invoked tr1 = []"
    using update_invoked [of U d w1] assms(4) by simp
  have r: "filter is_ejectDevice (requests tr1) = []"
    using update_no_eject [of U d w1] assms(4) by simp
  have e: "filter (\<lambda>f. f = Slot_eject) (invoked (fst (snd (eject U d1 w2)))) = []"
    by (simp add: eject_invoked)
  from unmount_unfold [OF assms(1-4)] assms(5,6)
  show ?thesis
    by (auto simp add: invoked_append requests_append i r e)
qed

text \<open>
  On the optical drive the unmount is followed by one call of \<^verbatim>\<open>eject\<close>; on the drive
  that is not optical there is no such call and no eject request.
\<close>

theorem unmount_then_eject_iff_optical_witness:
  "isValid sim_env (Block (path dev_cd)) sim_cd \<and> mountpoint dev_cd \<noteq> []
   \<and> fst (uDisks2_unmountDevice sim_env (path dev_cd) sim_cd) = []
   \<and> invoked (fst (snd (unmount sim_env dev_cd sim_cd)))
       = [Slot_updateDeviceProperties, Slot_eject, Slot_updateDeviceProperties]
   \<and> filter is_ejectDevice (requests (fst (snd (unmount sim_env dev_cd sim_cd))))
       = [EjectDevice ''/org/freedesktop/UDisks2/drives/d0'']
   \<and> isValid sim_env (Block (path dev_sr0)) sim0 \<and> mountpoint dev_sr0 \<noteq> []
   \<and> fst (uDisks2_unmountDevice sim_env (path dev_sr0) sim0) = []
   \<and> invoked (fst (snd (unmount sim_env dev_sr0 sim0))) = [Slot_updateDeviceProperties]
   \<and> filter is_ejectDevice (requests (fst (snd (unmount sim_env dev_sr0 sim0)))) = []"
proof -
  have m: "mountpoint dev_sr0 \<noteq> []" "mountpoint dev_cd \<noteq> []"
    by (simp_all add: dev_sr0_def dev_cd_def)
  have v: "isValid sim_env (Block (path dev_cd)) sim_cd"
    "isValid sim_env (Block (path dev_sr0)) sim0"
    by (simp_all add: sim_env_def sim0_def sim_cd_def)
  have r: "uDisks2_unmountDevice sim_env (path dev_cd) sim_cd = ([], sim_cd\<lparr>mounted_at := []\<rparr>)"
    "uDisks2_unmountDevice sim_env (path dev_sr0) sim0 = ([], sim0\<lparr>mounted_at := []\<rparr>)"
    by (simp_all add: sim_env_def sim0_def sim_cd_def)
  obtain a1 t1 x1 where
    u1: "updateDeviceProperties sim_env dev_cd (sim_cd\<lparr>mounted_at := []\<rparr>) = (a1, t1, x1)"
    by (cases "updateDeviceProperties sim_env dev_cd (sim_cd\<lparr>mounted_at := []\<rparr>)")
  obtain a2 t2 x2 where
    u2: "updateDeviceProperties sim_env dev_sr0 (sim0\<lparr>mounted_at := []\<rparr>) = (a2, t2, x2)"
    by (cases "updateDeviceProperties sim_env dev_sr0 (sim0\<lparr>mounted_at := []\<rparr>)")
  have a1: "mountpoint a1 = []" "isOptical a1" "invoked t1 = []"
    "filter is_ejectDevice (requests t1) = []"
    "invoked (fst (snd (eject sim_env a1 x1))) = [Slot_updateDeviceProperties]"
    "filter is_ejectDevice (requests (fst (snd (eject sim_env a1 x1))))
       = [EjectDevice ''/org/freedesktop/UDisks2/drives/d0'']"
    using u1 by (auto simp add: eject_def updateDeviceProperties_def sim_defs)
  have a2: "mountpoint a2 = []" "\<not> isOptical a2" "invoked t2 = []"
    using u2 by (auto simp add: updateDeviceProperties_def sim_defs)
  obtain b1 s1 y1 where e1: "unmount sim_env dev_cd sim_cd = (b1, s1, y1)"
    by (cases "unmount sim_env dev_cd sim_cd")
  obtain b2 s2 y2 where e2: "unmount sim_env dev_sr0 sim0 = (b2, s2, y2)"
    by (cases "unmount sim_env dev_sr0 sim0")
  from unmount_then_eject_iff_optical [OF v(1) m(2) r(1) u1 a1(1) e1]
  have 1: "invoked s1 = [Slot_updateDeviceProperties, Slot_eject, Slot_updateDeviceProperties]"
    "filter is_ejectDevice (requests s1) = [EjectDevice ''/org/freedesktop/UDisks2/drives/d0'']"
    by (simp_all add: a1 invoked_append requests_append)
  from unmount_then_eject_iff_optical [OF v(2) m(1) r(2) u2 a2(1) e2]
  have 2: "invoked s2 = [Slot_updateDeviceProperties]"
    "filter is_ejectDevice (requests s2) = []"
    by (auto simp add: a2)
  show ?thesis
    by (simp add: v m r e1 e2 1 2)
qed

text \<open>
  Claim C3, as the code has it. With a valid bus interface and a mount point stored,
  \<^verbatim>\<open>unmount\<close> sends the unmount request and then always calls
  \<^verbatim>\<open>updateDeviceProperties\<close>. If the answer is not empty or the mount point is still
  not empty after the refresh, it emits one \<^verbatim>\<open>errorMessage\<close> with the path and the
  answer, or, when the answer is empty, the text "Failed to umount " followed by the
  refreshed name, and stops there. Otherwise the only error signals of the call are
  those of the \<^verbatim>\<open>eject\<close> that follows on an optical device; on any other device there
  is none.
\<close>

theorem unmount_error_policy:
  assumes "isValid U (Block (path d)) w" and "mountpoint d \<noteq> []"
    and "uDisks2_unmountDevice U (path d) w = (reply, w1)"
    and "updateDeviceProperties U d w1 = (d1, tr1, w2)"
    and "unmount U d w = (d2, tr, w3)"
  shows "take (2 + length tr1) tr
           = Adapter (UnmountDevice (path d)) # Invoke Slot_updateDeviceProperties # tr1
       \<and> (reply \<noteq> [] \<or> mountpoint d1 \<noteq> [] \<longrightarrow>
            (d2, w3) = (d1, w2)
            \<and> drop (2 + length tr1) tr
                = [Emit (Device_errorMessage (path d)
                     (if reply = [] then ''Failed to umount '' @ name d1 else reply))])
       \<and> filter is_error (emitted tr)
           = (if reply \<noteq> [] \<or> mountpoint d1 \<noteq> []
              then [Device_errorMessage (path d)
                      (if reply = [] then ''Failed to umount '' @ name d1 else reply)]
              else if isOptical d1
              then filter is_error (emitted (fst (snd (eject U d1 w2))))
              else [])"
proof -
  have n: "filter is_error (emitted tr1) = []"
    using update_no_error [of U d w1] assms(4) by simp
  from unmount_unfold [OF assms(1-4)] assms(5)
  show ?thesis
    by (auto simp add: emitted_append n)
qed

text \<open>
  The four outcomes on the simulated service: the unmount refused; the unmount answered
  without error and not done; the unmount done on a drive that is not optical; the
  unmount done on an optical drive that then refuses to eject.
\<close>

theorem unmount_error_policy_witness:
  "filter is_error (emitted (fst (snd (unmount sim_env dev_sr0 sim_busy))))
     = [Device_errorMessage sr0 ''target is busy'']
   \<and> filter is_error (emitted (fst (snd (unmount sim_env dev_sr0 sim_stuck))))
     = [Device_errorMessage sr0 ''Failed to umount disk'']
   \<and> filter is_error (emitted (fst (snd (unmount sim_env dev_sr0 sim0)))) = []
   \<and> filter is_error (emitted (fst (snd (unmount sim_env dev_cd sim_cd_locked))))
     = [Device_errorMessage sr0 ''drive locked'']"
proof -
  have m: "mountpoint dev_sr0 \<noteq> []" "mountpoint dev_cd \<noteq> []"
    by (simp_all add: dev_sr0_def dev_cd_def)
  have p: "path dev_sr0 = sr0" "path dev_cd = sr0"
    by (simp_all add: dev_sr0_def dev_cd_def)
  have v: "isValid sim_env (Block (path dev_sr0)) sim_busy"
    "isValid sim_env (Block (path dev_sr0)) sim_stuck"
    "isValid sim_env (Block (path dev_sr0)) sim0"
    "isValid sim_env (Block (path dev_cd)) sim_cd_locked"
    by (simp_all add: sim_env_def sim0_def sim_busy_def sim_stuck_def sim_cd_locked_def)
  have r: "uDisks2_unmountDevice sim_env (path dev_sr0) sim_busy = (''target is busy'', sim_busy)"
    "uDisks2_unmountDevice sim_env (path dev_sr0) sim_stuck = ([], sim_stuck)"
    "uDisks2_unmountDevice sim_env (path dev_sr0) sim0 = ([], sim0\<lparr>mounted_at := []\<rparr>)"
    "uDisks2_unmountDevice sim_env (path dev_cd) sim_cd_locked
       = ([], sim_cd_locked\<lparr>mounted_at := []\<rparr>)"
    by (simp_all add: sim_env_def sim0_def sim_busy_def sim_stuck_def sim_cd_locked_def)
  obtain a1 t1 x1 where u1: "updateDeviceProperties sim_env dev_sr0 sim_busy = (a1, t1, x1)"
    by (cases "updateDeviceProperties sim_env dev_sr0 sim_busy")
  obtain a2 t2 x2 where u2: "updateDeviceProperties sim_env dev_sr0 sim_stuck = (a2, t2, x2)"
    by (cases "updateDeviceProperties sim_env dev_sr0 sim_stuck")
  obtain a3 t3 x3 where
    u3: "updateDeviceProperties sim_env dev_sr0 (sim0\<lparr>mounted_at := []\<rparr>) = (a3, t3, x3)"
    by (cases "updateDeviceProperties sim_env dev_sr0 (sim0\<lparr>mounted_at := []\<rparr>)")
  obtain a4 t4 x4 where
    u4: "updateDeviceProperties sim_env dev_cd (sim_cd_locked\<lparr>mounted_at := []\<rparr>) = (a4, t4, x4)"
    by (cases "updateDeviceProperties sim_env dev_cd (sim_cd_locked\<lparr>mounted_at := []\<rparr>)")
  have a2: "mountpoint a2 = ''/media/disk''" "name a2 = ''disk''"
    using u2 by (auto simp add: updateDeviceProperties_def sim_defs)
  have a3: "mountpoint a3 = []" "\<not> isOptical a3"
    using u3 by (auto simp add: updateDeviceProperties_def sim_defs)
  have a4: "mountpoint a4 = []" "isOptical a4"
    "filter is_error (emitted (fst (snd (eject sim_env a4 x4))))
       = [Device_errorMessage sr0 ''drive locked'']"
    using u4 by (auto simp add: eject_def updateDeviceProperties_def sim_defs)
  obtain b1 s1 y1 where e1: "unmount sim_env dev_sr0 sim_busy = (b1, s1, y1)"
    by (cases "unmount sim_env dev_sr0 sim_busy")
  obtain b2 s2 y2 where e2: "unmount sim_env dev_sr0 sim_stuck = (b2, s2, y2)"
    by (cases "unmount sim_env dev_sr0 sim_stuck")
  obtain b3 s3 y3 where e3: "unmount sim_env dev_sr0 sim0 = (b3, s3, y3)"
    by (cases "unmount sim_env dev_sr0 sim0")
  obtain b4 s4 y4 where e4: "unmount sim_env dev_cd sim_cd_locked = (b4, s4, y4)"
    by (cases "unmount sim_env dev_cd sim_cd_locked")
  from unmount_error_policy [OF v(1) m(1) r(1) u1 e1]
  have 1: "filter is_error (emitted s1) = [Device_errorMessage sr0 ''target is busy'']"
    by (simp add: p)
  from unmount_error_policy [OF v(2) m(1) r(2) u2 e2]
  have 2: "filter is_error (emitted s2) = [Device_errorMessage sr0 ''Failed to umount disk'']"
    by (simp add: p a2)
  from unmount_error_policy [OF v(3) m(1) r(3) u3 e3]
  have 3: "filter is_error (emitted s3) = []"
    by (simp add: p a3)
  from unmount_error_policy [OF v(4) m(2) r(4) u4 e4]
  have 4: "filter is_error (emitted s4) = [Device_errorMessage sr0 ''drive locked'']"
    by (simp add: p a4)
  show ?thesis
    by (simp add: e1 e2 e3 e4 1 2 3 4)
qed

text \<open>
  The claim as the specification words it fails on the optical drive that unmounts and
  then refuses to eject: the answer to the unmount request is empty, the mount point is
  empty after the refresh, and still the call emits an error signal, the one of the
  automatic eject.
\<close>

theorem unmount_error_iff_counterexample:
  "isValid sim_env (Block (path dev_cd)) sim_cd_locked \<and> mountpoint dev_cd \<noteq> []
   \<and> \<not> (filter is_error (emitted (fst (snd (unmount sim_env dev_cd sim_cd_locked)))) \<noteq> []
          \<longleftrightarrow> fst (uDisks2_unmountDevice sim_env (path dev_cd) sim_cd_locked) \<noteq> []
              \<or> mountpoint (fst (updateDeviceProperties sim_env dev_cd
                    (snd (uDisks2_unmountDevice sim_env (path dev_cd) sim_cd_locked)))) \<noteq> [])"
  by (simp add: unmount_def eject_def updateDeviceProperties_def sim_defs)

subsection \<open>Manager: the reconciliation loop\<close>

lemma Device_new_invoked: "invoked (fst (snd (Device_new U p w))) = [Slot_updateDeviceProperties]"
  using update_invoked [of U "Device_init p" w]
  by (cases "updateDeviceProperties U (Device_init p) w") (simp add: Device_new_def)

lemma Device_new_constructed: "constructed (fst (snd (Device_new U p w))) = []"
  using update_constructed [of U "Device_init p" w]
  by (cases "updateDeviceProperties U (Device_init p) w") (simp add: Device_new_def)

lemma Device_new_signal_path:
  "s \<in> set (emitted (fst (snd (Device_new U p w)))) \<Longrightarrow> signal_path s = Some p"
  using update_signal_path [of s U "Device_init p" w]
  by (cases "updateDeviceProperties U (Device_init p) w")
    (simp add: Device_new_def Device_init_def)

lemma Device_new_no_found:
  "filter is_foundNewDevice (emitted (fst (snd (Device_new U p w)))) = []"
  using update_no_found [of U "Device_init p" w]
  by (cases "updateDeviceProperties U (Device_init p) w") (simp add: Device_new_def)

lemma scanLoop_dom:
  "dom (devices (fst (scanLoop U xs m w))) = dom (devices m) \<union> set xs"
proof (induction xs arbitrary: m w)
  case Nil
  show ?case by simp
next
  case (Cons x xs)
  show ?case
  proof (cases "devices m x")
    case None
    obtain d tr w1 where n: "Device_new U x w = (d, tr, w1)"
      by (cases "Device_new U x w")
    let ?m = "m\<lparr>devices := (devices m)(x \<mapsto> next_obj m),
                  heap := (heap m)(next_obj m \<mapsto> d), next_obj := Suc (next_obj m)\<rparr>"
    have "fst (scanLoop U (x # xs) m w) = fst (scanLoop U xs ?m w1)"
      using None n by (simp add: Let_def split: prod.splits)
    then show ?thesis
      using Cons.IH [of ?m w1] by auto
  next
    case (Some a)
    then show ?thesis
      using Cons.IH [of m w] by auto
  qed
qed

lemma scanLoop_unchanged:
  "set xs \<subseteq> dom (devices m) \<Longrightarrow> scanLoop U xs m w = (m, [], w)"
  by (induction xs) auto

lemma scanLoop_keeps:
  assumes "scanLoop U xs m w = (m', tr, w')"
  shows "dbus m' = dbus m \<and> next_obj m \<le> next_obj m'
       \<and> (\<forall>p a. devices m p = Some a \<longrightarrow> devices m' p = Some a)
       \<and> (\<forall>a. a < next_obj m \<longrightarrow> heap m' a = heap m a)
       \<and> (\<forall>a q. (a, q) \<in> set (constructed tr) \<longrightarrow>
             next_obj m \<le> a \<and> devices m q = None \<and> q \<in> set xs)
       \<and> (\<forall>s. s \<in> set (emitted tr) \<longrightarrow>
             (\<exists>q. signal_path s = Some q \<and> devices m q = None \<and> q \<in> set xs))
       \<and> invoked tr = map (\<lambda>c. Slot_updateDeviceProperties) (constructed tr)"
  using assms
proof (induction xs arbitrary: m w m' tr w')
  case Nil
  then show ?case by simp
next
  case (Cons x xs)
  show ?case
  proof (cases "devices m x")
    case None
    obtain d t1 w1 where n: "Device_new U x w = (d, t1, w1)"
      by (cases "Device_new U x w")
    let ?m = "m\<lparr>devices := (devices m)(x \<mapsto> next_obj m),
                  heap := (heap m)(next_obj m \<mapsto> d), next_obj := Suc (next_obj m)\<rparr>"
    obtain m2 t2 w2 where r: "scanLoop U xs ?m w1 = (m2, t2, w2)"
      by (cases "scanLoop U xs ?m w1")
    have res: "m' = m2" "tr = New (next_obj m) x # t1 @ t2"
      using Cons.prems None n r by (simp_all add: Let_def)
    note ih = Cons.IH [OF r]
    have ih_d: "dbus m2 = dbus m" and ih_n: "Suc (next_obj m) \<le> next_obj m2"
      using ih by simp_all
    have ih_k: "\<And>p a. p \<noteq> x \<Longrightarrow> devices m p = Some a \<Longrightarrow> devices m2 p = Some a"
      using ih by simp
    have ih_h: "\<And>a. a < next_obj m \<Longrightarrow> heap m2 a = heap m a"
      using ih by simp
    have ih_c: "\<And>a q. (a, q) \<in> set (constructed t2) \<Longrightarrow>
        Suc (next_obj m) \<le> a \<and> q \<noteq> x \<and> devices m q = None \<and> q \<in> set xs"
    proof -
      fix a q assume "(a, q) \<in> set (constructed t2)"
      with ih have "Suc (next_obj m) \<le> next_obj ?m \<and> Suc (next_obj m) \<le> a
          \<and> devices ?m q = None \<and> q \<in> set xs"
        by simp
      then show "Suc (next_obj m) \<le> a \<and> q \<noteq> x \<and> devices m q = None \<and> q \<in> set xs"
        by (simp split: if_splits)
    qed
    have ih_e: "\<And>s. s \<in> set (emitted t2) \<Longrightarrow>
        \<exists>q. signal_path s = Some q \<and> devices m q = None \<and> q \<in> set xs"
    proof -
      fix s assume "s \<in> set (emitted t2)"
      with ih obtain q where "signal_path s = Some q" "devices ?m q = None" "q \<in> set xs"
        by blast
      then show "\<exists>q. signal_path s = Some q \<and> devices m q = None \<and> q \<in> set xs"
        by (auto split: if_splits)
    qed
    have ih_i: "invoked t2 = map (\<lambda>c. Slot_updateDeviceProperties) (constructed t2)"
      using ih by simp
    have c1: "constructed t1 = []" and i1: "invoked t1 = [Slot_updateDeviceProperties]"
      using Device_new_constructed [of U x w] Device_new_invoked [of U x w] n by simp_all
    have e1: "\<And>s. s \<in> set (emitted t1) \<Longrightarrow> signal_path s = Some x"
      using Device_new_signal_path [of _ U x w] n by simp
    have k: "\<forall>p a. devices m p = Some a \<longrightarrow> devices m' p = Some a"
    proof (intro allI impI)
      fix p a assume pa: "devices m p = Some a"
      with None have "p \<noteq> x" by auto
      from ih_k [OF this pa] res show "devices m' p = Some a" by simp
    qed
    have h: "\<forall>a. a < next_obj m \<longrightarrow> heap m' a = heap m a"
      using ih_h res by simp
    have c: "\<forall>a q. (a, q) \<in> set (constructed tr) \<longrightarrow>
             next_obj m \<le> a \<and> devices m q = None \<and> q \<in> set (x # xs)"
      using ih_c None res c1 by (fastforce simp add: constructed_append)
    have e: "\<forall>s. s \<in> set (emitted tr) \<longrightarrow>
             (\<exists>q. signal_path s = Some q \<and> devices m q = None \<and> q \<in> set (x # xs))"
    proof (intro allI impI)
      fix s assume "s \<in> set (emitted tr)"
      then consider "s \<in> set (emitted t1)" | "s \<in> set (emitted t2)"
        using res by (auto simp add: emitted_append)
      then show "\<exists>q. signal_path s = Some q \<and> devices m q = None \<and> q \<in> set (x # xs)"
      proof cases
        case 1
        then show ?thesis using e1 None by auto
      next
        case 2
        then show ?thesis using ih_e [of s] by auto
      qed
    qed
    have i: "invoked tr = map (\<lambda>c. Slot_updateDeviceProperties) (constructed tr)"
      using ih_i res c1 i1 by (simp add: invoked_append constructed_append)
    have "dbus m' = dbus m" and "next_obj m \<le> next_obj m'"
      using ih_d ih_n res by simp_all
    then show ?thesis
      using k h c e i by blast
  next
    case (Some a)
    then have "scanLoop U xs m w = (m', tr, w')"
      using Cons.prems by simp
    from Cons.IH [OF this] show ?thesis by auto
  qed
qed

lemma scanLoop_no_found:
  "filter is_foundNewDevice (emitted (fst (snd (scanLoop U xs m w)))) = []"
proof (induction xs arbitrary: m w)
  case Nil
  show ?case by simp
next
  case (Cons x xs)
  show ?case
  proof (cases "devices m x")
    case None
    obtain d t1 w1 where n: "Device_new U x w = (d, t1, w1)"
      by (cases "Device_new U x w")
    let ?m = "m\<lparr>devices := (devices m)(x \<mapsto> next_obj m),
                  heap := (heap m)(next_obj m \<mapsto> d), next_obj := Suc (next_obj m)\<rparr>"
    obtain m2 t2 w2 where r: "scanLoop U xs ?m w1 = (m2, t2, w2)"
      by (cases "scanLoop U xs ?m w1")
    have "fst (snd (scanLoop U (x # xs) m w)) = New (next_obj m) x # t1 @ t2"
      using None n r by (simp add: Let_def)
    moreover have "filter is_foundNewDevice (emitted t1) = []"
      using Device_new_no_found [of U x w] n by simp
    moreover have "filter is_foundNewDevice (emitted t2) = []"
      using Cons.IH [of ?m w1] r by simp
    ultimately show ?thesis
      by (simp add: emitted_append)
  next
    case (Some a)
    then show ?thesis
      using Cons.IH [of m w] by simp
  qed
qed

lemma scanDevices_unfold:
  assumes "uDisks2_getDevices U w = (found, w1)"
  shows "scanDevices U m w =
     (fst (scanLoop U found m w1),
      Adapter GetDevices # fst (snd (scanLoop U found m w1)) @ [Emit Manager_updatedDevices],
      snd (snd (scanLoop U found m w1)))"
  using assms by (simp add: scanDevices_def split: prod.splits)

lemma scanDevices_no_found:
  "filter is_foundNewDevice (emitted (fst (snd (scanDevices U m w)))) = []"
proof -
  obtain found w1 where g: "uDisks2_getDevices U w = (found, w1)"
    by (cases "uDisks2_getDevices U w")
  show ?thesis
    by (simp add: scanDevices_unfold [OF g] emitted_append scanLoop_no_found)
qed

text \<open>
  Identities are handed out in increasing order, so the object of a tracked path is
  always one made earlier: the loop and \<^verbatim>\<open>scanDevices\<close> keep that true.
\<close>

lemma scanLoop_identities:
  assumes "\<forall>p a. devices m p = Some a \<longrightarrow> a < next_obj m"
  shows "\<forall>p a. devices (fst (scanLoop U xs m w)) p = Some a \<longrightarrow>
           a < next_obj (fst (scanLoop U xs m w))"
  using assms
proof (induction xs arbitrary: m w)
  case Nil
  then show ?case by simp
next
  case (Cons x xs)
  show ?case
  proof (cases "devices m x")
    case None
    obtain d t1 w1 where n: "Device_new U x w = (d, t1, w1)"
      by (cases "Device_new U x w")
    let ?m = "m\<lparr>devices := (devices m)(x \<mapsto> next_obj m),
                  heap := (heap m)(next_obj m \<mapsto> d), next_obj := Suc (next_obj m)\<rparr>"
    have step: "fst (scanLoop U (x # xs) m w) = fst (scanLoop U xs ?m w1)"
      using None n by (simp add: Let_def split: prod.splits)
    have "\<forall>p a. devices ?m p = Some a \<longrightarrow> a < next_obj ?m"
      using Cons.prems by (auto simp add: less_Suc_eq)
    from Cons.IH [OF this, of w1] show ?thesis
      by (simp only: step)
  next
    case (Some a)
    then show ?thesis
      using Cons.IH [OF Cons.prems, of w] by simp
  qed
qed

lemma scanDevices_identities:
  assumes "\<forall>p a. devices m p = Some a \<longrightarrow> a < next_obj m"
  shows "\<forall>p a. devices (fst (scanDevices U m w)) p = Some a \<longrightarrow>
           a < next_obj (fst (scanDevices U m w))"
proof -
  obtain found w1 where g: "uDisks2_getDevices U w = (found, w1)"
    by (cases "uDisks2_getDevices U w")
  show ?thesis
    using scanLoop_identities [OF assms, of U found w1]
    by (simp add: scanDevices_unfold [OF g])
qed

subsection \<open>Manager: scanDevices\<close>

text \<open>
  Claim C1, as the code has it. \<^verbatim>\<open>scanDevices\<close> only adds: after the call the tracked
  paths are the paths tracked before together with the paths of the enumeration. They
  are exactly the paths of the enumeration when every path tracked before is among
  them.
\<close>

theorem scanDevices_tracked_paths:
  "dom (devices (fst (scanDevices U m w)))
     = dom (devices m) \<union> set (fst (uDisks2_getDevices U w))
   \<and> (dom (devices m) \<subseteq> set (fst (uDisks2_getDevices U w)) \<longrightarrow>
        dom (devices (fst (scanDevices U m w))) = set (fst (uDisks2_getDevices U w)))"
proof -
  obtain found w1 where g: "uDisks2_getDevices U w = (found, w1)"
    by (cases "uDisks2_getDevices U w")
  have "dom (devices (fst (scanDevices U m w))) = dom (devices m) \<union> set found"
    by (simp add: scanDevices_unfold [OF g] scanLoop_dom)
  then show ?thesis
    using g by auto
qed

text \<open>
  Started with nothing tracked, the scan ends with the two paths of the enumeration.
\<close>

theorem scanDevices_tracked_paths_witness:
  "dom (devices mgr_empty) \<subseteq> set (fst (uDisks2_getDevices sim_env sim_two))
   \<and> dom (devices (fst (scanDevices sim_env mgr_empty sim_two))) = {sr0, sdb1}"
proof -
  have g: "fst (uDisks2_getDevices sim_env sim_two) = [sr0, sdb1]"
    by (simp add: sim_env_def sim_two_def sim0_def)
  have e: "dom (devices mgr_empty) = {}"
    by (simp add: mgr_empty_def)
  from scanDevices_tracked_paths [of sim_env mgr_empty sim_two]
  show ?thesis
    by (simp add: g e)
qed

text \<open>
  The claim as the specification words it fails when a tracked device is missing from
  the enumeration: the Manager tracks \<open>sr0\<close>, the service lists no device, and after
  the scan \<open>sr0\<close> is still tracked.
\<close>

theorem scanDevices_tracked_paths_counterexample:
  "fst (uDisks2_getDevices sim_env sim0) = []
   \<and> dom (devices (fst (scanDevices sim_env mgr_sr0 sim0))) = {sr0}
   \<and> dom (devices (fst (scanDevices sim_env mgr_sr0 sim0)))
       \<noteq> set (fst (uDisks2_getDevices sim_env sim0))"
  by (simp add: scanDevices_def sim_env_def sim0_def mgr_sr0_def)

text \<open>
  Claim C5. For every path tracked before the call (its Device being an object made
  earlier), \<^verbatim>\<open>scanDevices\<close> keeps the same object under that path, with its contents
  as they were, constructs no Device for it and emits no signal that carries it; every
  refresh of the call belongs to a construction. One \<^verbatim>\<open>updatedDevices\<close> is emitted by
  every call. A second call whose enumeration is the same as the first one's changes
  nothing in the Manager and does nothing but enumerate and emit \<^verbatim>\<open>updatedDevices\<close>.
\<close>

theorem scanDevices_idempotent:
  assumes "scanDevices U m w = (m', tr, w')"
  shows "(\<forall>p a. devices m p = Some a \<and> a < next_obj m \<longrightarrow>
            devices m' p = Some a \<and> heap m' a = heap m a
            \<and> (\<forall>q. (a, q) \<notin> set (constructed tr))
            \<and> (\<forall>b. (b, p) \<notin> set (constructed tr))
            \<and> (\<forall>s \<in> set (emitted tr). signal_path s \<noteq> Some p))
       \<and> invoked tr = map (\<lambda>c. Slot_updateDeviceProperties) (constructed tr)
       \<and> filter (\<lambda>s. s = Manager_updatedDevices) (emitted tr) = [Manager_updatedDevices]
       \<and> (fst (uDisks2_getDevices U w') = fst (uDisks2_getDevices U w) \<longrightarrow>
            scanDevices U m' w'
              = (m', [Adapter GetDevices, Emit Manager_updatedDevices],
                 snd (uDisks2_getDevices U w')))"
proof -
  obtain found w1 where g: "uDisks2_getDevices U w = (found, w1)"
    by (cases "uDisks2_getDevices U w")
  obtain t where l: "scanLoop U found m w1 = (m', t, w')"
    and tr: "tr = Adapter GetDevices # t @ [Emit Manager_updatedDevices]"
    using assms scanDevices_unfold [OF g, of m]
    by (cases "scanLoop U found m w1") simp
  note k = scanLoop_keeps [OF l]
  have con: "constructed tr = constructed t" and inv: "invoked tr = invoked t"
    and em: "emitted tr = emitted t @ [Manager_updatedDevices]"
    by (simp_all add: tr constructed_append invoked_append emitted_append)
  have a: "\<forall>p a. devices m p = Some a \<and> a < next_obj m \<longrightarrow>
            devices m' p = Some a \<and> heap m' a = heap m a
            \<and> (\<forall>q. (a, q) \<notin> set (constructed tr))
            \<and> (\<forall>b. (b, p) \<notin> set (constructed tr))
            \<and> (\<forall>s \<in> set (emitted tr). signal_path s \<noteq> Some p)"
  proof (intro allI impI, elim conjE)
    fix p a assume pa: "devices m p = Some a" and lt: "a < next_obj m"
    have 1: "devices m' p = Some a" using k pa by blast
    have 2: "heap m' a = heap m a" using k lt by blast
    have 3: "\<forall>q. (a, q) \<notin> set (constructed tr)"
    proof
      fix q show "(a, q) \<notin> set (constructed tr)"
      proof
        assume "(a, q) \<in> set (constructed tr)"
        then have "next_obj m \<le> a" using k con by auto
        with lt show False by simp
      qed
    qed
    have 4: "\<forall>b. (b, p) \<notin> set (constructed tr)"
    proof
      fix b show "(b, p) \<notin> set (constructed tr)"
      proof
        assume "(b, p) \<in> set (constructed tr)"
        then have "devices m p = None" using k con by auto
        with pa show False by simp
      qed
    qed
    have 5: "\<forall>s \<in> set (emitted tr). signal_path s \<noteq> Some p"
    proof
      fix s assume "s \<in> set (emitted tr)"
      then consider "s \<in> set (emitted t)" | "s = Manager_updatedDevices"
        using em by auto
      then show "signal_path s \<noteq> Some p"
      proof cases
        case 1
        then obtain q where "signal_path s = Some q" "devices m q = None"
          using k by blast
        with pa show ?thesis by auto
      next
        case 2
        then show ?thesis by simp
      qed
    qed
    from 1 2 3 4 5
    show "devices m' p = Some a \<and> heap m' a = heap m a
            \<and> (\<forall>q. (a, q) \<notin> set (constructed tr))
            \<and> (\<forall>b. (b, p) \<notin> set (constructed tr))
            \<and> (\<forall>s \<in> set (emitted tr). signal_path s \<noteq> Some p)"
      by simp
  qed
  have b: "invoked tr = map (\<lambda>c. Slot_updateDeviceProperties) (constructed tr)"
    using k con inv by simp
  have "\<forall>s \<in> set (emitted t). s \<noteq> Manager_updatedDevices"
  proof
    fix s assume "s \<in> set (emitted t)"
    then obtain q where "signal_path s = Some q" using k by blast
    then show "s \<noteq> Manager_updatedDevices" by auto
  qed
  then have "filter (\<lambda>s. s = Manager_updatedDevices) (emitted t) = []"
    by (simp add: filter_empty_conv)
  then have c: "filter (\<lambda>s. s = Manager_updatedDevices) (emitted tr) = [Manager_updatedDevices]"
    by (simp add: em)
  have d: "fst (uDisks2_getDevices U w') = fst (uDisks2_getDevices U w) \<longrightarrow>
            scanDevices U m' w'
              = (m', [Adapter GetDevices, Emit Manager_updatedDevices],
                 snd (uDisks2_getDevices U w'))"
  proof
    assume same: "fst (uDisks2_getDevices U w') = fst (uDisks2_getDevices U w)"
    obtain w2 where g2: "uDisks2_getDevices U w' = (found, w2)"
      using same g by (cases "uDisks2_getDevices U w'") simp
    have "set found \<subseteq> dom (devices m')"
      using scanLoop_dom [of U found m w1] l by simp
    then have "scanLoop U found m' w2 = (m', [], w2)"
      by (rule scanLoop_unchanged)
    then show "scanDevices U m' w'
              = (m', [Adapter GetDevices, Emit Manager_updatedDevices],
                 snd (uDisks2_getDevices U w'))"
      by (simp add: scanDevices_unfold [OF g2] g2)
  qed
  from a b c d show ?thesis by blast
qed

text \<open>
  The Manager that tracks \<open>sr0\<close> as object 0 scans a service that lists \<open>sr0\<close> and
  \<open>sdb1\<close>: object 0 stays under \<open>sr0\<close> as it was, the only Device constructed is
  object 1 on \<open>sdb1\<close>, one \<^verbatim>\<open>updatedDevices\<close> is emitted, and a second scan with the
  same enumeration leaves the Manager as the first one left it.
\<close>

theorem scanDevices_idempotent_witness:
  "devices mgr_sr0 sr0 = Some 0 \<and> 0 < next_obj mgr_sr0
   \<and> devices (fst (scanDevices sim_env mgr_sr0 sim_two)) sr0 = Some 0
   \<and> heap (fst (scanDevices sim_env mgr_sr0 sim_two)) 0 = Some dev_sr0
   \<and> constructed (fst (snd (scanDevices sim_env mgr_sr0 sim_two))) = [(1, sdb1)]
   \<and> filter (\<lambda>s. s = Manager_updatedDevices)
        (emitted (fst (snd (scanDevices sim_env mgr_sr0 sim_two)))) = [Manager_updatedDevices]
   \<and> fst (uDisks2_getDevices sim_env (snd (snd (scanDevices sim_env mgr_sr0 sim_two))))
       = fst (uDisks2_getDevices sim_env sim_two)
   \<and> fst (scanDevices sim_env (fst (scanDevices sim_env mgr_sr0 sim_two))
             (snd (snd (scanDevices sim_env mgr_sr0 sim_two))))
       = fst (scanDevices sim_env mgr_sr0 sim_two)"
proof -
  obtain m1 t1 w1 where s: "scanDevices sim_env mgr_sr0 sim_two = (m1, t1, w1)"
    by (cases "scanDevices sim_env mgr_sr0 sim_two")
  have d: "devices mgr_sr0 sr0 = Some 0" and lt: "0 < next_obj mgr_sr0"
    and hp: "heap mgr_sr0 0 = Some dev_sr0"
    by (simp_all add: mgr_sr0_def)
  have c: "constructed t1 = [(1, sdb1)]" and w1: "w1 = sim0\<lparr>enumerations := [[sr0, sdb1]]\<rparr>"
    using s
    by (auto simp add: scanDevices_def Device_new_def Device_init_def
        updateDeviceProperties_def sim_env_def sim_two_def sim0_def mgr_sr0_def
        sr0_def sdb1_def)
  have g: "fst (uDisks2_getDevices sim_env w1) = fst (uDisks2_getDevices sim_env sim_two)"
    by (simp add: w1 sim_env_def sim_two_def sim0_def)
  note t = scanDevices_idempotent [OF s]
  from t d lt have 1: "devices m1 sr0 = Some 0 \<and> heap m1 0 = heap mgr_sr0 0"
    by blast
  from t have 2: "filter (\<lambda>s. s = Manager_updatedDevices) (emitted t1) = [Manager_updatedDevices]"
    by blast
  from t g have 3: "fst (scanDevices sim_env m1 w1) = m1"
    by simp
  show ?thesis
    using d lt 1 2 3 c g hp by (simp add: s)
qed

subsection \<open>Manager: deviceAdded\<close>

text \<open>
  Claim C8, as the code has it. While the interface behind \<^verbatim>\<open>Manager::dbus\<close> is valid:
  for a path that starts with \<^verbatim>\<open>DBUS_PATH\<close> followed by "/jobs", \<^verbatim>\<open>deviceAdded\<close> does
  nothing; for any other path it calls \<^verbatim>\<open>scanDevices\<close> and then emits
  \<^verbatim>\<open>foundNewDevice\<close> with that path, the only signal of that kind in the call.
\<close>

theorem deviceAdded_contract:
  assumes "dbus m = Some iface" and "isValid U iface w"
  shows "(startsWith obj (DBUS_PATH U @ ''/jobs'') \<longrightarrow>
            deviceAdded U obj m w = Some (m, [], w))
       \<and> (\<not> startsWith obj (DBUS_PATH U @ ''/jobs'') \<longrightarrow>
            deviceAdded U obj m w
              = Some (fst (scanDevices U m w),
                      Invoke Slot_scanDevices # fst (snd (scanDevices U m w))
                        @ [Emit (Manager_foundNewDevice obj)],
                      snd (snd (scanDevices U m w)))
            \<and> filter is_foundNewDevice (emitted (fst (snd (scanDevices U m w)))) = [])"
  using assms scanDevices_no_found [of U m w]
  by (cases "scanDevices U m w") (simp add: deviceAdded_def)

text \<open>
  With the service reachable: the notification for a job object changes nothing; the
  one for \<open>sdb1\<close> makes the Manager that tracks \<open>sr0\<close> scan, construct the Device on
  \<open>sdb1\<close> as object 1, and announce \<open>sdb1\<close>.
\<close>

theorem deviceAdded_contract_witness:
  "dbus mgr_sr0 = Some ObjectManager \<and> isValid sim_env ObjectManager sim_two
   \<and> startsWith job7 (DBUS_PATH sim_env @ ''/jobs'')
   \<and> deviceAdded sim_env job7 mgr_sr0 sim_two = Some (mgr_sr0, [], sim_two)
   \<and> \<not> startsWith sdb1 (DBUS_PATH sim_env @ ''/jobs'')
   \<and> (case deviceAdded sim_env sdb1 mgr_sr0 sim_two of
         None \<Rightarrow> False
       | Some (m, tr, w) \<Rightarrow>
           devices m sdb1 = Some 1 \<and> constructed tr = [(1, sdb1)]
           \<and> invoked tr = [Slot_scanDevices, Slot_updateDeviceProperties]
           \<and> filter (\<lambda>s. s = Manager_updatedDevices \<or> is_foundNewDevice s) (emitted tr)
               = [Manager_updatedDevices, Manager_foundNewDevice sdb1])"
proof -
  have h: "dbus mgr_sr0 = Some ObjectManager"
    by (simp add: mgr_sr0_def)
  have v: "isValid sim_env ObjectManager sim_two"
    by (simp add: sim_env_def sim_two_def sim0_def)
  have j: "startsWith job7 (DBUS_PATH sim_env @ ''/jobs'')"
    by (simp add: startsWith_def job7_def sim_env_def)
  have n: "\<not> startsWith sdb1 (DBUS_PATH sim_env @ ''/jobs'')"
    by (simp add: startsWith_def sdb1_def sim_env_def)
  obtain m1 t1 w1 where s: "scanDevices sim_env mgr_sr0 sim_two = (m1, t1, w1)"
    by (cases "scanDevices sim_env mgr_sr0 sim_two")
  have s': "devices m1 sdb1 = Some 1" "constructed t1 = [(1, sdb1)]"
    "invoked t1 = [Slot_updateDeviceProperties]"
    "filter (\<lambda>s. s = Manager_updatedDevices \<or> is_foundNewDevice s) (emitted t1)
       = [Manager_updatedDevices]"
    using s
    by (auto simp add: scanDevices_def Device_new_def Device_init_def
        updateDeviceProperties_def sim_env_def sim_two_def sim0_def mgr_sr0_def
        sr0_def sdb1_def)
  from deviceAdded_contract [OF h v, of job7] j
  have 1: "deviceAdded sim_env job7 mgr_sr0 sim_two = Some (mgr_sr0, [], sim_two)"
    by simp
  from deviceAdded_contract [OF h v, of sdb1] n
  have 2: "deviceAdded sim_env sdb1 mgr_sr0 sim_two
      = Some (m1, Invoke Slot_scanDevices # t1 @ [Emit (Manager_foundNewDevice sdb1)], w1)"
    by (simp add: s)
  show ?thesis
    by (simp add: h v j n 1 2 s' constructed_append invoked_append emitted_append)
qed

text \<open>
  The claim as the specification words it fails while the service is away: the path
  \<open>sdb1\<close> is not a job path, and the handler neither enumerates nor announces it.
\<close>

theorem deviceAdded_counterexample:
  "dbus mgr_sr0 = Some ObjectManager
   \<and> \<not> startsWith sdb1 (DBUS_PATH sim_env @ ''/jobs'')
   \<and> fst (uDisks2_getDevices sim_env sim_two_down) = [sr0, sdb1]
   \<and> deviceAdded sim_env sdb1 mgr_sr0 sim_two_down = Some (mgr_sr0, [], sim_two_down)"
  by (simp add: deviceAdded_def startsWith_def sim_env_def sim_two_down_def sim_two_def
      sim0_def mgr_sr0_def sdb1_def)

subsection \<open>Manager: deviceRemoved\<close>

text \<open>
  Claim C2, as the code has it. While the interface behind \<^verbatim>\<open>Manager::dbus\<close> is valid
  and the path is not a job path: if the path is not tracked, \<^verbatim>\<open>deviceRemoved\<close> calls
  \<^verbatim>\<open>scanDevices\<close>; if it is tracked and a fresh enumeration still lists it, the handler
  returns there, with the Manager unchanged and without calling \<^verbatim>\<open>scanDevices\<close>; if it
  is tracked and the fresh enumeration does not list it, the entry is taken out, the
  Device deleted, and \<^verbatim>\<open>scanDevices\<close> called.
\<close>

theorem deviceRemoved_contract:
  assumes "dbus m = Some iface" and "isValid U iface w"
    and "\<not> startsWith obj (DBUS_PATH U @ ''/jobs'')"
    and "uDisks2_getDevices U w = (found, w1)"
  shows "(devices m obj = None \<longrightarrow>
            deviceRemoved U obj m w
              = Some (fst (scanDevices U m w),
                      Invoke Slot_scanDevices # fst (snd (scanDevices U m w)),
                      snd (snd (scanDevices U m w))))
       \<and> (\<forall>a. devices m obj = Some a \<and> obj \<in> set found \<longrightarrow>
            deviceRemoved U obj m w = Some (m, [Adapter GetDevices], w1))
       \<and> (\<forall>a. devices m obj = Some a \<and> obj \<notin> set found \<longrightarrow>
            deviceRemoved U obj m w
              = Some (fst (scanDevices U
                             (m\<lparr>devices := (devices m)(obj := None),
                                heap := (heap m)(a := None)\<rparr>) w1),
                      Adapter GetDevices # Delete a # Invoke Slot_scanDevices
                        # fst (snd (scanDevices U
                             (m\<lparr>devices := (devices m)(obj := None),
                                heap := (heap m)(a := None)\<rparr>) w1)),
                      snd (snd (scanDevices U
                             (m\<lparr>devices := (devices m)(obj := None),
                                heap := (heap m)(a := None)\<rparr>) w1))))"
  using assms
  by (simp add: deviceRemoved_def Let_def split: prod.splits)

text \<open>
  The three cases on the Manager that tracks \<open>sr0\<close>: a removal of \<open>sdb1\<close>, which is not
  tracked, ends in a scan; a removal of \<open>sr0\<close> while the service still lists it changes
  nothing and scans nothing; a removal of \<open>sr0\<close> while the service lists no device
  deletes object 0, scans, and leaves \<open>sr0\<close> untracked.
\<close>

theorem deviceRemoved_contract_witness:
  "dbus mgr_sr0 = Some ObjectManager \<and> isValid sim_env ObjectManager sim_listed
   \<and> isValid sim_env ObjectManager sim0
   \<and> \<not> startsWith sdb1 (DBUS_PATH sim_env @ ''/jobs'')
   \<and> \<not> startsWith sr0 (DBUS_PATH sim_env @ ''/jobs'')
   \<and> devices mgr_sr0 sdb1 = None
   \<and> (case deviceRemoved sim_env sdb1 mgr_sr0 sim_listed of
         None \<Rightarrow> False
       | Some (m, tr, w) \<Rightarrow>
           tr = [Invoke Slot_scanDevices, Adapter GetDevices, Emit Manager_updatedDevices]
           \<and> devices m sr0 = Some 0)
   \<and> deviceRemoved sim_env sr0 mgr_sr0 sim_listed
       = Some (mgr_sr0, [Adapter GetDevices], sim0\<lparr>enumerations := [[sr0]]\<rparr>)
   \<and> (case deviceRemoved sim_env sr0 mgr_sr0 sim0 of
         None \<Rightarrow> False
       | Some (m, tr, w) \<Rightarrow>
           tr = [Adapter GetDevices, Delete 0, Invoke Slot_scanDevices,
                 Adapter GetDevices, Emit Manager_updatedDevices]
           \<and> devices m sr0 = None \<and> heap m 0 = None)"
proof -
  have h: "dbus mgr_sr0 = Some ObjectManager"
    by (simp add: mgr_sr0_def)
  have v: "isValid sim_env ObjectManager sim_listed" "isValid sim_env ObjectManager sim0"
    by (simp_all add: sim_env_def sim_listed_def sim0_def)
  have n: "\<not> startsWith sdb1 (DBUS_PATH sim_env @ ''/jobs'')"
    "\<not> startsWith sr0 (DBUS_PATH sim_env @ ''/jobs'')"
    by (simp_all add: startsWith_def sdb1_def sr0_def sim_env_def)
  have g: "uDisks2_getDevices sim_env sim_listed = ([sr0], sim0\<lparr>enumerations := [[sr0]]\<rparr>)"
    "uDisks2_getDevices sim_env sim0 = ([], sim0)"
    by (simp_all add: sim_env_def sim_listed_def sim0_def)
  have t: "devices mgr_sr0 sdb1 = None" "devices mgr_sr0 sr0 = Some 0"
    by (simp_all add: mgr_sr0_def sr0_def sdb1_def)
  have s1: "fst (snd (scanDevices sim_env mgr_sr0 sim_listed))
       = [Adapter GetDevices, Emit Manager_updatedDevices]"
    "devices (fst (scanDevices sim_env mgr_sr0 sim_listed)) sr0 = Some 0"
    by (simp_all add: scanDevices_def sim_env_def sim_listed_def sim0_def mgr_sr0_def)
  let ?m0 = "mgr_sr0\<lparr>devices := (devices mgr_sr0)(sr0 := None),
                      heap := (heap mgr_sr0)(0 := None)\<rparr>"
  have s3: "fst (snd (scanDevices sim_env ?m0 sim0))
       = [Adapter GetDevices, Emit Manager_updatedDevices]"
    "devices (fst (scanDevices sim_env ?m0 sim0)) sr0 = None"
    "heap (fst (scanDevices sim_env ?m0 sim0)) 0 = None"
    by (simp_all add: scanDevices_def sim_env_def sim0_def mgr_sr0_def)
  from deviceRemoved_contract [OF h v(1) n(1) g(1)] t(1)
  have 1: "deviceRemoved sim_env sdb1 mgr_sr0 sim_listed
      = Some (fst (scanDevices sim_env mgr_sr0 sim_listed),
              Invoke Slot_scanDevices # fst (snd (scanDevices sim_env mgr_sr0 sim_listed)),
              snd (snd (scanDevices sim_env mgr_sr0 sim_listed)))"
    by simp
  from deviceRemoved_contract [OF h v(1) n(2) g(1)] t(2)
  have 2: "deviceRemoved sim_env sr0 mgr_sr0 sim_listed
      = Some (mgr_sr0, [Adapter GetDevices], sim0\<lparr>enumerations := [[sr0]]\<rparr>)"
    by simp
  from deviceRemoved_contract [OF h v(2) n(2) g(2)] t(2)
  have 3: "deviceRemoved sim_env sr0 mgr_sr0 sim0
      = Some (fst (scanDevices sim_env ?m0 sim0),
              Adapter GetDevices # Delete 0 # Invoke Slot_scanDevices
                # fst (snd (scanDevices sim_env ?m0 sim0)),
              snd (snd (scanDevices sim_env ?m0 sim0)))"
    by simp
  show ?thesis
    by (simp add: h v n t 1 2 3 s1 s3)
qed

text \<open>
  The claim as the specification words it fails on the spurious removal: \<open>sr0\<close> is
  tracked, is not a job path, and is still listed; the handler enumerates once to see
  that, keeps the Device, and returns without calling \<^verbatim>\<open>scanDevices\<close> and without
  \<^verbatim>\<open>updatedDevices\<close>.
\<close>

theorem deviceRemoved_counterexample:
  "dbus mgr_sr0 = Some ObjectManager \<and> isValid sim_env ObjectManager sim_listed
   \<and> \<not> startsWith sr0 (DBUS_PATH sim_env @ ''/jobs'')
   \<and> deviceRemoved sim_env sr0 mgr_sr0 sim_listed
       = Some (mgr_sr0, [Adapter GetDevices], sim0\<lparr>enumerations := [[sr0]]\<rparr>)
   \<and> invoked [Adapter GetDevices] = [] \<and> emitted [Adapter GetDevices] = []"
  by (simp add: deviceRemoved_def startsWith_def sim_env_def sim_listed_def sim0_def
      mgr_sr0_def sr0_def)

subsection \<open>Manager: the handlers while the service is away\<close>

text \<open>
  Claim C10. While the interface that \<^verbatim>\<open>Manager::dbus\<close> points to is invalid, both
  \<^verbatim>\<open>deviceAdded\<close> and \<^verbatim>\<open>deviceRemoved\<close> return at once for every path: nothing is
  requested, no entry is added or removed, nothing is emitted.
\<close>

theorem handlers_ignore_when_invalid:
  assumes "dbus m = Some iface" and "\<not> isValid U iface w"
  shows "deviceAdded U obj m w = Some (m, [], w) \<and> deviceRemoved U obj m w = Some (m, [], w)"
  using assms by (simp add: deviceAdded_def deviceRemoved_def)

text \<open>With the service gone, neither notification changes the Manager that tracks \<open>sr0\<close>.\<close>

theorem handlers_ignore_when_invalid_witness:
  "dbus mgr_sr0 = Some ObjectManager \<and> \<not> isValid sim_env ObjectManager sim_down
   \<and> deviceAdded sim_env sdb1 mgr_sr0 sim_down = Some (mgr_sr0, [], sim_down)
   \<and> deviceRemoved sim_env sr0 mgr_sr0 sim_down = Some (mgr_sr0, [], sim_down)"
proof -
  have h: "dbus mgr_sr0 = Some ObjectManager"
    by (simp add: mgr_sr0_def)
  have v: "\<not> isValid sim_env ObjectManager sim_down"
    by (simp add: sim_env_def sim_down_def sim0_def)
  from handlers_ignore_when_invalid [OF h v, of sdb1]
    handlers_ignore_when_invalid [OF h v, of sr0] h v
  show ?thesis by simp
qed

end
